theory Spec2Isabelle
  imports Complex_Main "HOL-Library.Multiset" "HOL-Library.Sublist"
begin

section \<open>JavaScript values used by the retrieval core\<close>

text \<open>
  A JavaScript string is a sequence of UTF-16 code units and \<open>.length\<close> counts them, so a
  string is a list of code-unit values (Cyrillic letters are one unit each).

  A JavaScript number is a real number.  The similarity scorer, the retriever and the
  quality evaluator compute with exact reals.  The reranker and the context formatter,
  whose results are rounded to a fixed number of decimals, compute as the runtime does, in
  IEEE 754 binary64 with rounding to nearest, ties to even (\<open>double\<close> below).  NaN, the
  infinities and overflow are outside the model.
\<close>

type_synonym code_unit = nat
type_synonym jsstring = "code_unit list"

definition str :: "string \<Rightarrow> jsstring" where
  "str s = map of_char s"

text \<open>
  Built-ins of the JavaScript runtime whose behaviour is a table of the Unicode standard or
  depends on the binary representation of a number.  The functions of the program take them
  as a parameter: \<open>toLowerCase\<close> is \<open>String.prototype.toLowerCase\<close>, \<open>canonicalize\<close> is the
  case folding a regular expression with the flag \<open>i\<close> applies to one code unit, and
  \<open>numberToString\<close> is the conversion \<open>toFixed\<close> falls back to at \<open>10^21\<close> and beyond, and
  \<open>inheritedProperty\<close> holds of the property names every object literal inherits from
  \<open>Object.prototype\<close> (\<open>constructor\<close>, \<open>toString\<close>, ...).
\<close>

record js_builtins =
  toLowerCase :: "jsstring \<Rightarrow> jsstring"
  canonicalize :: "code_unit \<Rightarrow> code_unit"
  numberToString :: "real \<Rightarrow> jsstring"
  inheritedProperty :: "jsstring \<Rightarrow> bool"

text \<open>White space and line terminators: the class \<open>\\s\<close> of a regular expression and what
  \<open>trim\<close> removes.\<close>

definition whiteSpace_units :: "code_unit list" where
  "whiteSpace_units =
     [9, 10, 11, 12, 13, 32, 160, 5760, 8192, 8193, 8194, 8195, 8196, 8197, 8198, 8199, 8200,
      8201, 8202, 8232, 8233, 8239, 8287, 12288, 65279]"

definition isWhiteSpace :: "code_unit \<Rightarrow> bool" where
  "isWhiteSpace c = (c \<in> set whiteSpace_units)"

definition trim :: "jsstring \<Rightarrow> jsstring" where
  "trim s = rev (dropWhile isWhiteSpace (rev (dropWhile isWhiteSpace s)))"

fun starts_with :: "jsstring \<Rightarrow> jsstring \<Rightarrow> bool" where
  "starts_with s [] = True"
| "starts_with [] (c # cs) = False"
| "starts_with (x # xs) (c # cs) = (x = c \<and> starts_with xs cs)"

text \<open>\<open>s.includes(sub)\<close>: \<open>sub\<close> occurs in \<open>s\<close> as a contiguous substring.\<close>

fun includes_str :: "jsstring \<Rightarrow> jsstring \<Rightarrow> bool" where
  "includes_str [] sub = (sub = [])"
| "includes_str (x # xs) sub = (starts_with (x # xs) sub \<or> includes_str xs sub)"

text \<open>\<open>s.split(/\\s+/)\<close>: the pieces between maximal runs of white space; a run at either
  end leaves an empty piece there.  \<open>inSep\<close> tells that the previous unit was white space,
  \<open>cur\<close> is the piece read so far.\<close>

fun split_ws :: "bool \<Rightarrow> jsstring \<Rightarrow> jsstring \<Rightarrow> jsstring list" where
  "split_ws inSep cur [] = [cur]"
| "split_ws inSep cur (c # cs) =
     (if isWhiteSpace c
      then (if inSep then split_ws True cur cs else cur # split_ws True [] cs)
      else split_ws False (cur @ [c]) cs)"

definition split_whitespace :: "jsstring \<Rightarrow> jsstring list" where
  "split_whitespace s = split_ws False [] s"

fun join :: "jsstring \<Rightarrow> jsstring list \<Rightarrow> jsstring" where
  "join sep [] = []"
| "join sep [x] = x"
| "join sep (x # y # ys) = x @ sep @ join sep (y # ys)"

text \<open>The decimal digits of a natural number, as in a template literal.\<close>

function nat_to_string :: "nat \<Rightarrow> jsstring" where
  "nat_to_string n =
     (if n < 10 then [48 + n] else nat_to_string (n div 10) @ [48 + n mod 10])"
  by pat_completeness auto
termination
  by (relation "measure (\<lambda>n. n)") auto

declare nat_to_string.simps [simp del]

subsection \<open>Binary64 arithmetic\<close>

text \<open>The binary exponent \<open>e\<close> of a positive number, \<open>2^e \<le> a < 2^(e+1)\<close>, found by halving
  or doubling and kept within the range of binary64: at most 1023, and -1022 for every
  subnormal number.\<close>

function exponent_up :: "nat \<Rightarrow> real \<Rightarrow> int" where
  "exponent_up n x = (if n = 0 \<or> x < 2 then 0 else exponent_up (n - 1) (x / 2) + 1)"
  by pat_completeness auto
termination
  by (relation "measure (\<lambda>(n, x). n)") auto

declare exponent_up.simps [simp del]

function exponent_down :: "nat \<Rightarrow> real \<Rightarrow> int" where
  "exponent_down n x = (if n = 0 \<or> 1 \<le> x then 0 else exponent_down (n - 1) (2 * x) - 1)"
  by pat_completeness auto
termination
  by (relation "measure (\<lambda>(n, x). n)") auto

declare exponent_down.simps [simp del]

definition binary_exponent :: "real \<Rightarrow> int" where
  "binary_exponent a = (if 1 \<le> a then exponent_up 1023 a else exponent_down 1022 a)"

text \<open>The distance of neighbouring doubles of binary exponent \<open>e\<close>: the significand has 53
  bits.\<close>

definition ulp :: "int \<Rightarrow> real" where
  "ulp e = (if 52 \<le> e then 2 ^ nat (e - 52) else 1 / 2 ^ nat (52 - e))"

definition round_half_even :: "real \<Rightarrow> int" where
  "round_half_even q =
     (let f = \<lfloor>q\<rfloor>
      in if q - of_int f < 1 / 2 then f
         else if q - of_int f > 1 / 2 then f + 1
         else if even f then f else f + 1)"

text \<open>The double nearest to a real number: what a decimal literal denotes and what an
  arithmetic operation returns for its exact result.\<close>

definition double :: "real \<Rightarrow> real" where
  "double x =
     (let e = binary_exponent \<bar>x\<bar>
      in sgn x * of_int (round_half_even (\<bar>x\<bar> / ulp e)) * ulp e)"

text \<open>\<open>x + y\<close> and \<open>x * y\<close> on doubles; an operand written as a decimal is the double it
  denotes.  The one division of the program, of the length of one array by the length of
  another, has exact operands and is written \<open>double (m / n)\<close>.\<close>

definition fadd :: "real \<Rightarrow> real \<Rightarrow> real" where
  "fadd x y = double (double x + double y)"

definition fmul :: "real \<Rightarrow> real \<Rightarrow> real" where
  "fmul x y = double (double x * double y)"

text \<open>\<open>parseFloat(x.toFixed(4))\<close>: below \<open>10^21\<close> the exact magnitude of the double is
  rounded to four decimals, a tie going to the larger magnitude, the sign is put back, and
  the decimal is read as a double; from \<open>10^21\<close> on \<open>toFixed\<close> prints the number
  itself.\<close>

definition parseFloat_toFixed4 :: "real \<Rightarrow> real" where
  "parseFloat_toFixed4 x =
     (if \<bar>double x\<bar> \<ge> 10 ^ 21 then double x
      else double (sgn (double x)
                   * real_of_int \<lfloor>\<bar>double x\<bar> * 10000 + 1 / 2\<rfloor> / 10000))"

text \<open>\<open>x.toFixed(1)\<close> of a double \<open>x\<close>.\<close>

definition toFixed1 :: "js_builtins \<Rightarrow> real \<Rightarrow> jsstring" where
  "toFixed1 rt x =
     (if \<bar>x\<bar> \<ge> 10 ^ 21 then numberToString rt x
      else (let n = nat \<lfloor>\<bar>x\<bar> * 10 + 1 / 2\<rfloor>
            in (if x < 0 then str ''-'' else []) @ nat_to_string (n div 10) @ str ''.''
               @ nat_to_string (n mod 10)))"

text \<open>A regular expression that is a sequence of character classes, each taken once or
  one or more times (\<open>+\<close>), matched at the head of a string with backtracking.\<close>

datatype atom = One "code_unit \<Rightarrow> bool" | Plus "code_unit \<Rightarrow> bool"

fun match_seq :: "atom list \<Rightarrow> jsstring \<Rightarrow> bool" where
  "match_seq [] s = True"
| "match_seq (One p # as) [] = False"
| "match_seq (One p # as) (c # cs) = (p c \<and> match_seq as cs)"
| "match_seq (Plus p # as) [] = False"
| "match_seq (Plus p # as) (c # cs) =
     (p c \<and> (match_seq (Plus p # as) cs \<or> match_seq as cs))"

text \<open>\<open>regex.test(s)\<close>: the pattern matches at some position of \<open>s\<close>.\<close>

fun test_anywhere :: "(jsstring \<Rightarrow> bool) \<Rightarrow> jsstring \<Rightarrow> bool" where
  "test_anywhere m [] = m []"
| "test_anywhere m (c # cs) = (m (c # cs) \<or> test_anywhere m cs)"

text \<open>A \<open>Set\<close> built from an array and spread back: the distinct elements in the order
  of their first occurrence.\<close>

definition set_in_insertion_order :: "'a list \<Rightarrow> 'a list" where
  "set_in_insertion_order xs = fold (\<lambda>x acc. if x \<in> set acc then acc else acc @ [x]) xs []"

text \<open>\<open>Array.prototype.sort\<close> with a comparator: a stable sort (ECMAScript 2019), here by
  insertion from the right, an element going in front of the first one it does not
  compare greater than.\<close>

fun insort_cmp :: "('a \<Rightarrow> 'a \<Rightarrow> real) \<Rightarrow> 'a \<Rightarrow> 'a list \<Rightarrow> 'a list" where
  "insort_cmp cmp x [] = [x]"
| "insort_cmp cmp x (y # ys) =
     (if cmp x y \<le> 0 then x # y # ys else y # insort_cmp cmp x ys)"

definition sort_cmp :: "('a \<Rightarrow> 'a \<Rightarrow> real) \<Rightarrow> 'a list \<Rightarrow> 'a list" where
  "sort_cmp cmp xs = foldr (insort_cmp cmp) xs []"

text \<open>\<open>Array.prototype.slice(0, end)\<close> for an integral \<open>end\<close>: a negative end counts from
  the back.\<close>

definition slice0 :: "'a list \<Rightarrow> int \<Rightarrow> 'a list" where
  "slice0 xs e =
     (let n = int (length xs);
          fin = (if e < 0 then max (n + e) 0 else min e n)
      in take (nat fin) xs)"

section \<open>similarity.ts\<close>

text \<open>An \<open>Error\<close> carries its message; a \<open>TypeError\<close> is raised by the runtime.\<close>

datatype js_error = Error jsstring | TypeError

text \<open>The message of the dimension error, "Vektory dolzhny imet' odinakovuyu razmernost'"
  in Cyrillic.\<close>

definition dimension_message :: jsstring where
  "dimension_message =
     [1042, 1077, 1082, 1090, 1086, 1088, 1099, 32, 1076, 1086, 1083, 1078, 1085, 1099, 32,
      1080, 1084, 1077, 1090, 1100, 32, 1086, 1076, 1080, 1085, 1072, 1082, 1086, 1074, 1091,
      1102, 32, 1088, 1072, 1079, 1084, 1077, 1088, 1085, 1086, 1089, 1090, 1100]"

text \<open>The loop of \<open>cosineSimilarity\<close>: \<open>for (i = 0; i < vec1.length; i++) dotProduct +=
  vec1[i] * vec2[i]\<close>, from index \<open>i\<close> with the sum so far.\<close>

function dot_loop :: "real list \<Rightarrow> real list \<Rightarrow> nat \<Rightarrow> real \<Rightarrow> real" where
  "dot_loop vec1 vec2 i dotProduct =
     (if i < length vec1
      then dot_loop vec1 vec2 (Suc i) (dotProduct + vec1 ! i * vec2 ! i)
      else dotProduct)"
  by pat_completeness auto
termination
  by (relation "measure (\<lambda>(vec1, vec2, i, d). length vec1 - i)") auto

declare dot_loop.simps [simp del]

definition cosineSimilarity :: "real list \<Rightarrow> real list \<Rightarrow> js_error + real" where
  "cosineSimilarity vec1 vec2 =
     (if length vec1 \<noteq> length vec2 then Inl (Error dimension_message)
      else Inr (dot_loop vec1 vec2 0 0))"

record metadata =
  position :: int
  totalChunks :: int

text \<open>The fields \<open>id\<close> and \<open>text\<close> are written \<open>id'\<close> and \<open>text'\<close>; the fields of an
  \<open>EmbeddedItem\<close> carry the prefix \<open>item_\<close>.\<close>

record EmbeddedItem =
  item_id :: jsstring
  item_text :: jsstring
  item_source :: jsstring
  embedding :: "real list"
  item_metadata :: "metadata option"

record SearchResult =
  id' :: jsstring
  text' :: jsstring
  source :: jsstring
  score :: real
  metadata :: "metadata option"

text \<open>\<open>items.map(item => ({..., score: cosineSimilarity(queryEmbedding, item.embedding)}))\<close>:
  the first item whose dimension differs throws, and the exception leaves the map.\<close>

fun score_items :: "real list \<Rightarrow> EmbeddedItem list \<Rightarrow> js_error + SearchResult list" where
  "score_items queryEmbedding [] = Inr []"
| "score_items queryEmbedding (item # items) =
     (case cosineSimilarity queryEmbedding (embedding item) of
        Inl e \<Rightarrow> Inl e
      | Inr s \<Rightarrow>
          (case score_items queryEmbedding items of
             Inl e \<Rightarrow> Inl e
           | Inr rest \<Rightarrow>
               Inr (\<lparr>id' = item_id item,
                     text' = item_text item,
                     source = item_source item,
                     score = s,
                     metadata = item_metadata item\<rparr> # rest)))"

definition by_score_desc :: "('a SearchResult_scheme) \<Rightarrow> ('a SearchResult_scheme) \<Rightarrow> real" where
  "by_score_desc a b = score b - score a"

definition findMostSimilar ::
  "real list \<Rightarrow> EmbeddedItem list \<Rightarrow> int \<Rightarrow> js_error + SearchResult list" where
  "findMostSimilar queryEmbedding items topK =
     (case score_items queryEmbedding items of
        Inl e \<Rightarrow> Inl e
      | Inr results \<Rightarrow> Inr (slice0 (sort_cmp by_score_desc results) topK))"

section \<open>The reranker\<close>

record quality_thresholds =
  high :: real
  medium :: real
  low :: real

text \<open>\<open>rerank_method\<close> is declared as one of five string literals; at run time it is the
  string of the request.\<close>

record RerankerConfig =
  min_similarity :: real
  min_rerank_score :: real
  top_k_for_rerank :: int
  final_top_k :: int
  rerank_method :: jsstring
  quality_thresholds :: quality_thresholds

record RankedResult = SearchResult +
  rerank_score :: real
  rerank_method :: jsstring
  original_rank :: nat
  boost_reason :: "jsstring option"

definition DEFAULT_RERANKER_CONFIG :: RerankerConfig where
  "DEFAULT_RERANKER_CONFIG =
     \<lparr>min_similarity = 0.3, min_rerank_score = 0.5, top_k_for_rerank = 20, final_top_k = 5,
      RerankerConfig.rerank_method = str ''hybrid'',
      quality_thresholds = \<lparr>high = 0.7, medium = 0.5, low = 0.3\<rparr>\<rparr>"

text \<open>The stop words, in the order of the source: twelve Russian prepositions and
  conjunctions, eleven English words, eight Russian forms of "this" and "to be".\<close>

definition stopWords :: "jsstring list" where
  "stopWords =
     [[1080], [1074], [1085, 1072], [1089], [1087, 1086], [1076, 1083, 1103], [1086, 1090],
      [1076, 1086], [1080, 1079], [1082], [1086], [1091],
      str ''the'', str ''is'', str ''at'', str ''which'', str ''on'', str ''a'', str ''an'',
      str ''as'', str ''are'', str ''was'', str ''were'',
      [1101, 1090, 1086], [1101, 1090, 1086, 1090], [1101, 1090, 1072],
      [1073, 1099, 1090, 1100], [1073, 1099, 1083], [1073, 1099, 1083, 1072],
      [1073, 1099, 1083, 1080], [1077, 1089, 1090, 1100]]"

text \<open>The members of the class \<open>[\wa-ya io \s]\<close> of \<open>extractKeywords\<close> (the range is the
  Cyrillic small letters, U+0430 to U+044F, with U+0451): digits, Latin capitals, the
  underscore, Latin small letters, the Cyrillic ones, white space.\<close>

definition keyword_class :: "code_unit list" where
  "keyword_class = [48..<58] @ [65..<91] @ [95] @ [97..<123] @ [1072..<1104] @ [1105]
     @ whiteSpace_units"

text \<open>Under the flag \<open>i\<close> a code unit is in a class when its case folding is the case
  folding of a member.\<close>

definition in_class_ignoreCase :: "js_builtins \<Rightarrow> code_unit list \<Rightarrow> code_unit \<Rightarrow> bool" where
  "in_class_ignoreCase rt cls ch = list_ex (\<lambda>a. canonicalize rt a = canonicalize rt ch) cls"

definition extractKeywords :: "js_builtins \<Rightarrow> jsstring \<Rightarrow> jsstring list" where
  "extractKeywords rt txt =
     (let words =
        filter (\<lambda>word. length word > 2 \<and> word \<notin> set stopWords)
          (split_whitespace
            (map (\<lambda>c. if in_class_ignoreCase rt keyword_class c then c else 32)
              (toLowerCase rt txt)))
      in set_in_insertion_order words)"

definition by_rerank_desc :: "RankedResult \<Rightarrow> RankedResult \<Rightarrow> real" where
  "by_rerank_desc a b = rerank_score b - rerank_score a"

text \<open>"Najdeno " and " klyuchevyh slov", the two parts of the keyword boost reason.\<close>

definition found_prefix :: jsstring where
  "found_prefix = [1053, 1072, 1081, 1076, 1077, 1085, 1086, 32]"

definition keywords_suffix :: jsstring where
  "keywords_suffix =
     [32, 1082, 1083, 1102, 1095, 1077, 1074, 1099, 1093, 32, 1089, 1083, 1086, 1074]"

definition matchingKeywords :: "jsstring list \<Rightarrow> jsstring list \<Rightarrow> jsstring list" where
  "matchingKeywords queryKeywords docKeywords =
     filter (\<lambda>kw. list_ex (\<lambda>dk. includes_str dk kw \<or> includes_str kw dk) docKeywords)
       queryKeywords"

text \<open>The callback of the \<open>map\<close> in \<open>rerankByKeywords\<close>, on the pair of index and result.\<close>

definition keyword_entry :: "js_builtins \<Rightarrow> jsstring list \<Rightarrow> nat \<times> SearchResult \<Rightarrow> RankedResult" where
  "keyword_entry rt queryKeywords ir =
     (let index = fst ir; result = snd ir;
          docKeywords = extractKeywords rt (text' result);
          matching = matchingKeywords queryKeywords docKeywords;
          keywordBoost = double (real (length matching) / real (max (length queryKeywords) 1));
          rerank_score = fadd (fmul (score result) 0.7) (fmul keywordBoost 0.3)
      in \<lparr>id' = id' result, text' = text' result, source = source result,
          score = score result, metadata = metadata result,
          rerank_score = parseFloat_toFixed4 rerank_score,
          rerank_method = str ''keyword-boost'',
          original_rank = index + 1,
          boost_reason =
            (if length matching > 0
             then Some (found_prefix @ nat_to_string (length matching) @ keywords_suffix)
             else None)\<rparr>)"

definition rerankByKeywords :: "js_builtins \<Rightarrow> jsstring \<Rightarrow> SearchResult list \<Rightarrow> RankedResult list" where
  "rerankByKeywords rt query results =
     (let queryKeywords = extractKeywords rt query
      in sort_cmp by_rerank_desc (map (keyword_entry rt queryKeywords) (enumerate 0 results)))"

definition isDigit :: "code_unit \<Rightarrow> bool" where
  "isDigit c = (48 \<le> c \<and> c \<le> 57)"

text \<open>The classes \<open>[A-Z A-YA]\<close> and \<open>[a-z a-ya]\<close> of the semantic pass, Latin and Cyrillic
  (U+0410 to U+042F, U+0430 to U+044F).\<close>

definition isCapital :: "code_unit \<Rightarrow> bool" where
  "isCapital c = ((65 \<le> c \<and> c \<le> 90) \<or> (1040 \<le> c \<and> c \<le> 1071))"

definition isSmall :: "code_unit \<Rightarrow> bool" where
  "isSmall c = ((97 \<le> c \<and> c \<le> 122) \<or> (1072 \<le> c \<and> c \<le> 1103))"

text \<open>The test of \<open>/\d+|[A-Z A-YA][a-z a-ya]+\s+[A-Z A-YA][a-z a-ya]+/\<close>.\<close>

definition hasSpecificData :: "jsstring \<Rightarrow> bool" where
  "hasSpecificData txt =
     test_anywhere
       (\<lambda>s. match_seq [Plus isDigit] s
           \<or> match_seq [One isCapital, Plus isSmall, Plus isWhiteSpace, One isCapital,
                         Plus isSmall] s)
       txt"

text \<open>The four boost reasons of the semantic pass: "pervyj chank", "optimal'naya dlina",
  "konkretnye dannye", and " pryamyh sovpadenij" after the number of direct matches.\<close>

definition first_chunk_reason :: jsstring where
  "first_chunk_reason = [1087, 1077, 1088, 1074, 1099, 1081, 32, 1095, 1072, 1085, 1082]"

definition optimal_length_reason :: jsstring where
  "optimal_length_reason =
     [1086, 1087, 1090, 1080, 1084, 1072, 1083, 1100, 1085, 1072, 1103, 32, 1076, 1083, 1080,
      1085, 1072]"

definition specific_data_reason :: jsstring where
  "specific_data_reason =
     [1082, 1086, 1085, 1082, 1088, 1077, 1090, 1085, 1099, 1077, 32, 1076, 1072, 1085, 1085,
      1099, 1077]"

definition direct_matches_suffix :: jsstring where
  "direct_matches_suffix =
     [32, 1087, 1088, 1103, 1084, 1099, 1093, 32, 1089, 1086, 1074, 1087, 1072, 1076, 1077,
      1085, 1080, 1081]"

text \<open>The callback of the \<open>map\<close> in \<open>rerankBySemantic\<close>.\<close>

definition semantic_entry :: "js_builtins \<Rightarrow> jsstring \<Rightarrow> nat \<times> SearchResult \<Rightarrow> RankedResult" where
  "semantic_entry rt query ir =
     (let index = fst ir; result = snd ir;
          positionBoost =
            (case metadata result of
               None \<Rightarrow> 0
             | Some m \<Rightarrow> if position m = 0 then 0.1 else (0::real));
          textLength = length (text' result);
          lengthBoost = (if textLength \<ge> 200 \<and> textLength \<le> 500 then 0.05 else (0::real));
          dataBoost = (if hasSpecificData (text' result) then 0.05 else (0::real));
          queryWords = split_whitespace (toLowerCase rt query);
          directMatches =
            length (filter (\<lambda>word. length word > 3
                                   \<and> includes_str (toLowerCase rt (text' result)) word)
                      queryWords);
          directMatchBoost = min (fmul (real directMatches) 0.05) (double 0.15);
          rerank_score =
            min (fadd (fadd (fadd (fadd (score result) positionBoost) lengthBoost) dataBoost)
                   directMatchBoost)
                1.0;
          boostFactors =
            (if positionBoost > 0 then [first_chunk_reason] else [])
            @ (if lengthBoost > 0 then [optimal_length_reason] else [])
            @ (if dataBoost > 0 then [specific_data_reason] else [])
            @ (if directMatchBoost > 0
               then [nat_to_string directMatches @ direct_matches_suffix] else [])
      in \<lparr>id' = id' result, text' = text' result, source = source result,
          score = score result, metadata = metadata result,
          rerank_score = parseFloat_toFixed4 rerank_score,
          rerank_method = str ''semantic-deep'',
          original_rank = index + 1,
          boost_reason =
            (if length boostFactors > 0 then Some (join (str '', '') boostFactors)
             else None)\<rparr>)"

definition rerankBySemantic :: "js_builtins \<Rightarrow> jsstring \<Rightarrow> SearchResult list \<Rightarrow> RankedResult list" where
  "rerankBySemantic rt query results =
     sort_cmp by_rerank_desc (map (semantic_entry rt query) (enumerate 0 results))"

text \<open>\<open>new Map(entries)\<close> and \<open>get\<close>: of two entries with one key the later one stays.\<close>

definition map_get :: "('k \<times> 'v) list \<Rightarrow> 'k \<Rightarrow> 'v option" where
  "map_get entries k = map_of (rev entries) k"

text \<open>The callback of the \<open>map\<close> in \<open>rerankHybrid\<close>; \<open>x || y\<close> is \<open>y\<close> when \<open>x\<close> is
  \<open>undefined\<close> or zero.\<close>

definition hybrid_entry :: "(jsstring \<times> real) list \<Rightarrow> RankedResult \<Rightarrow> RankedResult" where
  "hybrid_entry semanticMap result =
     (let semanticScore =
            (case map_get semanticMap (id' result) of
               None \<Rightarrow> score result
             | Some v \<Rightarrow> if v = 0 then score result else v);
          hybridScore = fadd (fmul (rerank_score result) 0.5) (fmul semanticScore 0.5)
      in result\<lparr>rerank_score := parseFloat_toFixed4 hybridScore,
                rerank_method := str ''hybrid'',
                boost_reason := boost_reason result\<rparr>)"

definition rerankHybrid :: "js_builtins \<Rightarrow> jsstring \<Rightarrow> SearchResult list \<Rightarrow> RankedResult list" where
  "rerankHybrid rt query results =
     (let keywordResults = rerankByKeywords rt query results;
          semanticResults = rerankBySemantic rt query results;
          semanticMap = map (\<lambda>r. (id' r, rerank_score r)) semanticResults
      in sort_cmp by_rerank_desc (map (hybrid_entry semanticMap) keywordResults))"

text \<open>The callback of the \<open>map\<close> of the case \<open>'none'\<close>.\<close>

definition none_entry :: "nat \<times> SearchResult \<Rightarrow> RankedResult" where
  "none_entry ir =
     (let index = fst ir; result = snd ir
      in \<lparr>id' = id' result, text' = text' result, source = source result,
          score = score result, metadata = metadata result,
          rerank_score = score result,
          rerank_method = str ''none'',
          original_rank = index + 1,
          boost_reason = None\<rparr>)"

definition rerankResults ::
  "js_builtins \<Rightarrow> jsstring \<Rightarrow> SearchResult list \<Rightarrow> RerankerConfig \<Rightarrow> RankedResult list" where
  "rerankResults rt query searchResults config =
     (if length searchResults = 0 then []
      else if RerankerConfig.rerank_method config = str ''keyword-boost''
        then rerankByKeywords rt query searchResults
      else if RerankerConfig.rerank_method config = str ''semantic-deep''
        then rerankBySemantic rt query searchResults
      else if RerankerConfig.rerank_method config = str ''hybrid''
        then rerankHybrid rt query searchResults
      else if RerankerConfig.rerank_method config = str ''none''
        then map none_entry (enumerate 0 searchResults)
      else rerankHybrid rt query searchResults)"

section \<open>rag.ts\<close>

text \<open>A value of type \<open>SearchResult | RankedResult\<close>; \<open>'rerank_score' in chunk\<close> tells
  the two apart.\<close>

datatype chunk = Plain SearchResult | Ranked RankedResult

fun chunk_source :: "chunk \<Rightarrow> jsstring" where
  "chunk_source (Plain r) = source r"
| "chunk_source (Ranked r) = source r"

fun chunk_text :: "chunk \<Rightarrow> jsstring" where
  "chunk_text (Plain r) = text' r"
| "chunk_text (Ranked r) = text' r"

text \<open>The object \<open>bySource\<close> is a list of its own properties in the order of their
  creation.  One step of the \<open>reduce\<close>: a source that is not yet a property but names
  something inherited from \<open>Object.prototype\<close> is found truthy, nothing is assigned, and
  \<open>push\<close> is not a function of what is found.\<close>

fun add_to_group :: "chunk \<Rightarrow> (jsstring \<times> chunk list) list \<Rightarrow> (jsstring \<times> chunk list) list" where
  "add_to_group c [] = []"
| "add_to_group c ((k, v) # rest) =
     (if k = chunk_source c then (k, v @ [c]) # rest else (k, v) # add_to_group c rest)"

definition group_step ::
  "js_builtins \<Rightarrow> (jsstring \<times> chunk list) list \<Rightarrow> chunk
     \<Rightarrow> js_error + (jsstring \<times> chunk list) list" where
  "group_step rt acc result =
     (if chunk_source result \<in> set (map fst acc) then Inr (add_to_group result acc)
      else if inheritedProperty rt (chunk_source result) then Inl TypeError
      else Inr (acc @ [(chunk_source result, [result])]))"

fun group_by_source ::
  "js_builtins \<Rightarrow> (jsstring \<times> chunk list) list \<Rightarrow> chunk list
     \<Rightarrow> js_error + (jsstring \<times> chunk list) list" where
  "group_by_source rt acc [] = Inr acc"
| "group_by_source rt acc (result # results) =
     (case group_step rt acc result of
        Inl e \<Rightarrow> Inl e
      | Inr acc' \<Rightarrow> group_by_source rt acc' results)"

text \<open>\<open>Object.entries\<close>: the properties whose name is an array index (the decimal form of
  an integer up to \<open>2^32 - 2\<close>) come first, by ascending index, the others follow in the
  order of their creation.\<close>

definition string_to_nat :: "jsstring \<Rightarrow> nat" where
  "string_to_nat k = fold (\<lambda>c n. 10 * n + (c - 48)) k 0"

definition is_array_index :: "jsstring \<Rightarrow> bool" where
  "is_array_index k =
     (k \<noteq> [] \<and> list_all (\<lambda>c. 48 \<le> c \<and> c \<le> 57) k \<and> (k = [48] \<or> hd k \<noteq> 48)
      \<and> string_to_nat k < 2 ^ 32 - 1)"

definition object_entries :: "(jsstring \<times> 'v) list \<Rightarrow> (jsstring \<times> 'v) list" where
  "object_entries props =
     sort_key (\<lambda>kv. string_to_nat (fst kv)) (filter (\<lambda>kv. is_array_index (fst kv)) props)
     @ filter (\<lambda>kv. \<not> is_array_index (fst kv)) props"

text \<open>The message for an empty result list, "Relevantnoj informacii v dokumentah ne
  najdeno."; the header of a document, a line feed and "--- DOKUMENT "; the header of a
  fragment, a line feed and "[Fragment "; "relevantnost': "; "(+bust: ".\<close>

definition no_information_message :: jsstring where
  "no_information_message =
     [1056, 1077, 1083, 1077, 1074, 1072, 1085, 1090, 1085, 1086, 1081, 32, 1080, 1085, 1092,
      1086, 1088, 1084, 1072, 1094, 1080, 1080, 32, 1074, 32, 1076, 1086, 1082, 1091, 1084,
      1077, 1085, 1090, 1072, 1093, 32, 1085, 1077, 32, 1085, 1072, 1081, 1076, 1077, 1085,
      1086, 46]"

definition document_header :: jsstring where
  "document_header =
     [10, 45, 45, 45, 32, 1044, 1054, 1050, 1059, 1052, 1045, 1053, 1058, 32]"

definition fragment_header :: jsstring where
  "fragment_header = [10, 91, 1060, 1088, 1072, 1075, 1084, 1077, 1085, 1090, 32]"

definition relevance_label :: jsstring where
  "relevance_label =
     [1088, 1077, 1083, 1077, 1074, 1072, 1085, 1090, 1085, 1086, 1089, 1090, 1100, 58, 32]"

definition boost_label :: jsstring where
  "boost_label = [40, 43, 1073, 1091, 1089, 1090, 58, 32]"

text \<open>What the inner \<open>forEach\<close> appends for one chunk.\<close>

definition format_chunk :: "js_builtins \<Rightarrow> nat \<times> chunk \<Rightarrow> jsstring" where
  "format_chunk rt ic =
     (let chunkIndex = fst ic; chunk = snd ic;
          scoreText =
            relevance_label
            @ toFixed1 rt
                (fmul (case chunk of Ranked r \<Rightarrow> rerank_score r | Plain r \<Rightarrow> score r) 100)
            @ str ''%''
      in fragment_header @ nat_to_string (chunkIndex + 1) @ str '', '' @ scoreText
         @ str '']'' @ [10]
         @ chunk_text chunk
         @ [10]
         @ (case chunk of
              Plain r \<Rightarrow> []
            | Ranked r \<Rightarrow>
                (case boost_reason r of
                   None \<Rightarrow> []
                 | Some b \<Rightarrow> if b \<noteq> [] then boost_label @ b @ str '')'' @ [10] else [])))"

text \<open>What the outer \<open>forEach\<close> appends for one source.\<close>

definition format_document :: "js_builtins \<Rightarrow> nat \<times> jsstring \<times> chunk list \<Rightarrow> jsstring" where
  "format_document rt ie =
     (let index = fst ie; source = fst (snd ie); chunks = snd (snd ie)
      in document_header @ nat_to_string (index + 1) @ str '': '' @ source @ str '' ---''
         @ [10]
         @ concat (map (format_chunk rt) (enumerate 0 chunks)))"

definition formatContextForLLM :: "js_builtins \<Rightarrow> chunk list \<Rightarrow> js_error + jsstring" where
  "formatContextForLLM rt results =
     (if length results = 0 then Inr no_information_message
      else (case group_by_source rt [] results of
              Inl e \<Rightarrow> Inl e
            | Inr bySource \<Rightarrow>
                Inr (trim (concat (map (format_document rt)
                                     (enumerate 0 (object_entries bySource)))))))"

datatype quality = Quality_none | Quality_low | Quality_medium | Quality_high

record QualityAssessment =
  quality :: quality
  confidence :: real
  recommendation :: jsstring
  avgScore :: "real option"
  maxScore :: "real option"
  totalChunks :: "nat option"

text \<open>The four recommendations: for no result, for high, for medium and for low
  quality.\<close>

definition recommendation_none :: jsstring where
  "recommendation_none =
     [1056, 1077, 1083, 1077, 1074, 1072, 1085, 1090, 1085, 1086, 1081, 32, 1080, 1085, 1092,
      1086, 1088, 1084, 1072, 1094, 1080, 1080, 32, 1085, 1077, 32, 1085, 1072, 1081, 1076,
      1077, 1085, 1086, 46, 32, 1052, 1086, 1076, 1077, 1083, 1100, 32, 1086, 1090, 1074, 1077,
      1090, 1080, 1090, 32, 1080, 1079, 32, 1086, 1073, 1097, 1080, 1093, 32, 1079, 1085, 1072,
      1085, 1080, 1081, 46]"

definition recommendation_high :: jsstring where
  "recommendation_high =
     [1053, 1072, 1081, 1076, 1077, 1085, 1072, 32, 1074, 1099, 1089, 1086, 1082, 1086, 1088,
      1077, 1083, 1077, 1074, 1072, 1085, 1090, 1085, 1072, 1103, 32, 1080, 1085, 1092, 1086,
      1088, 1084, 1072, 1094, 1080, 1103, 46, 32, 1054, 1090, 1074, 1077, 1090, 32, 1073, 1091,
      1076, 1077, 1090, 32, 1090, 1086, 1095, 1085, 1099, 1084, 46]"

definition recommendation_medium :: jsstring where
  "recommendation_medium =
     [1053, 1072, 1081, 1076, 1077, 1085, 1072, 32, 1095, 1072, 1089, 1090, 1080, 1095, 1085,
      1086, 32, 1088, 1077, 1083, 1077, 1074, 1072, 1085, 1090, 1085, 1072, 1103, 32, 1080,
      1085, 1092, 1086, 1088, 1084, 1072, 1094, 1080, 1103, 46, 32, 1054, 1090, 1074, 1077,
      1090, 32, 1084, 1086, 1078, 1077, 1090, 32, 1073, 1099, 1090, 1100, 32, 1085, 1077, 1087,
      1086, 1083, 1085, 1099, 1084, 46]"

definition recommendation_low :: jsstring where
  "recommendation_low =
     [1056, 1077, 1083, 1077, 1074, 1072, 1085, 1090, 1085, 1086, 1089, 1090, 1100, 32, 1085,
      1080, 1079, 1082, 1072, 1103, 46, 32, 1056, 1077, 1082, 1086, 1084, 1077, 1085, 1076,
      1091, 1077, 1090, 1089, 1103, 32, 1088, 1077, 1078, 1080, 1084, 32, 1073, 1077, 1079, 32,
      82, 65, 71, 32, 1080, 1083, 1080, 32, 1091, 1090, 1086, 1095, 1085, 1080, 1090, 1077, 32,
      1079, 1072, 1087, 1088, 1086, 1089, 46]"

text \<open>\<open>Math.max(...xs)\<close> of one number or more; of none it is \<open>-Infinity\<close>, which the
  model has not.\<close>

fun math_max :: "real list \<Rightarrow> real" where
  "math_max [x] = x"
| "math_max (x # y # ys) = max x (math_max (y # ys))"

definition evaluateContextQuality :: "('a SearchResult_scheme) list \<Rightarrow> QualityAssessment" where
  "evaluateContextQuality results =
     (if length results = 0
      then \<lparr>quality = Quality_none, confidence = 0, recommendation = recommendation_none,
            avgScore = None, maxScore = None, totalChunks = None\<rparr>
      else
        (let avg = fold (\<lambda>r sum. sum + score r) results 0 / real (length results);
             mx = math_max (map score results)
         in (if mx > 0.7 \<and> avg > 0.5
             then \<lparr>quality = Quality_high, confidence = 0.9,
                   recommendation = recommendation_high,
                   avgScore = Some (parseFloat_toFixed4 avg),
                   maxScore = Some (parseFloat_toFixed4 mx),
                   totalChunks = Some (length results)\<rparr>
             else if mx > 0.5 \<and> avg > 0.3
             then \<lparr>quality = Quality_medium, confidence = 0.6,
                   recommendation = recommendation_medium,
                   avgScore = Some (parseFloat_toFixed4 avg),
                   maxScore = Some (parseFloat_toFixed4 mx),
                   totalChunks = Some (length results)\<rparr>
             else \<lparr>quality = Quality_low, confidence = 0.3,
                   recommendation = recommendation_low,
                   avgScore = Some (parseFloat_toFixed4 avg),
                   maxScore = Some (parseFloat_toFixed4 mx),
                   totalChunks = Some (length results)\<rparr>)))"

text \<open>The block whose length is charged to the budget: a line feed, the source in
  brackets, a line feed, the text, a line feed.\<close>

definition chunkText :: "chunk \<Rightarrow> jsstring" where
  "chunkText result =
     [10] @ str ''['' @ chunk_source result @ str '']'' @ [10] @ chunk_text result @ [10]"

text \<open>The \<open>for\<close> loop of \<open>prepareContextWithLimit\<close> over the results not yet visited,
  with \<open>currentLength\<close> and \<open>selectedResults\<close>; \<open>break\<close> leaves it.\<close>

fun select_loop :: "chunk list \<Rightarrow> int \<Rightarrow> nat \<Rightarrow> chunk list \<Rightarrow> chunk list" where
  "select_loop [] maxChars currentLength selectedResults = selectedResults"
| "select_loop (result # results) maxChars currentLength selectedResults =
     (if int (currentLength + length (chunkText result)) \<le> maxChars
      then select_loop results maxChars (currentLength + length (chunkText result))
             (selectedResults @ [result])
      else selectedResults)"

definition prepareContextWithLimit :: "js_builtins \<Rightarrow> chunk list \<Rightarrow> int \<Rightarrow> js_error + jsstring" where
  "prepareContextWithLimit rt results maxChars =
     formatContextForLLM rt (select_loop results maxChars 0 [])"

section \<open>An instance of the built-ins\<close>

text \<open>For evaluating the program on examples: the case mappings of Basic Latin and of the
  Cyrillic block U+0400 to U+045F, every other code unit mapped to itself, and the property
  names of \<open>Object.prototype\<close>.  Numbers of magnitude \<open>10^21\<close> and more do not occur in the
  examples; the instance prints them as the empty string.\<close>

definition lower_unit :: "code_unit \<Rightarrow> code_unit" where
  "lower_unit c =
     (if (65 \<le> c \<and> c \<le> 90) \<or> (1040 \<le> c \<and> c \<le> 1071) then c + 32
      else if 1024 \<le> c \<and> c \<le> 1039 then c + 80
      else c)"

definition upper_unit :: "code_unit \<Rightarrow> code_unit" where
  "upper_unit c =
     (if (97 \<le> c \<and> c \<le> 122) \<or> (1072 \<le> c \<and> c \<le> 1103) then c - 32
      else if 1104 \<le> c \<and> c \<le> 1119 then c - 80
      else c)"

definition object_prototype_names :: "jsstring list" where
  "object_prototype_names =
     map str [''constructor'', ''__defineGetter__'', ''__defineSetter__'', ''hasOwnProperty'',
              ''__lookupGetter__'', ''__lookupSetter__'', ''isPrototypeOf'',
              ''propertyIsEnumerable'', ''toString'', ''valueOf'', ''__proto__'',
              ''toLocaleString'']"

definition basic_builtins :: js_builtins where
  "basic_builtins =
     \<lparr>toLowerCase = map lower_unit,
      canonicalize = upper_unit,
      numberToString = (\<lambda>x. []),
      inheritedProperty = (\<lambda>k. k \<in> set object_prototype_names)\<rparr>"

section \<open>Notions used to state the properties\<close>

text \<open>The dot product of two vectors, and an item with its dot product as score.\<close>

definition dot_product :: "real list \<Rightarrow> real list \<Rightarrow> real" where
  "dot_product v w = (\<Sum>k < length v. v ! k * w ! k)"

definition scored :: "real list \<Rightarrow> EmbeddedItem \<Rightarrow> SearchResult" where
  "scored q item =
     \<lparr>id' = item_id item, text' = item_text item, source = item_source item,
      score = dot_product q (embedding item), metadata = item_metadata item\<rparr>"

text \<open>The arithmetic mean and the maximum of the scores of a list of results.\<close>

definition mean_score :: "('a SearchResult_scheme) list \<Rightarrow> real" where
  "mean_score results = sum_list (map score results) / real (length results)"

definition max_score :: "('a SearchResult_scheme) list \<Rightarrow> real" where
  "max_score results = Max (score ` set results)"

text \<open>The order of the quality tiers: none, low, medium, high.\<close>

fun tier :: "quality \<Rightarrow> nat" where
  "tier Quality_none = 0"
| "tier Quality_low = 1"
| "tier Quality_medium = 2"
| "tier Quality_high = 3"

text \<open>A ranked result comes before another one when its rerank score is larger, or equal
  with a smaller original rank.\<close>

definition by_score_then_rank :: "RankedResult \<Rightarrow> RankedResult \<Rightarrow> bool" where
  "by_score_then_rank a b =
     (rerank_score a > rerank_score b
      \<or> (rerank_score a = rerank_score b \<and> original_rank a < original_rank b))"

text \<open>The tokens of a text, stated without the program's steps.  A token unit is a code
  unit of the keyword class (a letter, a digit or the underscore, up to case) that is not
  white space; a word is a maximal run of token units; the tokens are the words of the
  lowercased text that are longer than two units and are no stop words, each counted
  once.\<close>

definition token_unit :: "js_builtins \<Rightarrow> code_unit \<Rightarrow> bool" where
  "token_unit rt c = (in_class_ignoreCase rt keyword_class c \<and> \<not> isWhiteSpace c)"

function words_of :: "('a \<Rightarrow> bool) \<Rightarrow> 'a list \<Rightarrow> 'a list list" where
  "words_of P s =
     (case dropWhile (\<lambda>c. \<not> P c) s of
        [] \<Rightarrow> []
      | c # cs \<Rightarrow> takeWhile P (c # cs) # words_of P (dropWhile P (c # cs)))"
  by pat_completeness auto
termination
proof (relation "measure (\<lambda>(P, s). length s)")
  show "wf (measure (\<lambda>(P, s). length s))"
    by simp
next
  fix P :: "'a \<Rightarrow> bool" and s c cs
  assume d: "dropWhile (\<lambda>c. \<not> P c) s = c # cs"
  have "P c"
    using hd_dropWhile [of "\<lambda>c. \<not> P c" s] d by simp
  then have "length (dropWhile P (c # cs)) \<le> length cs"
    by (simp add: length_dropWhile_le)
  moreover have "length (c # cs) \<le> length s"
    using length_dropWhile_le [of "\<lambda>c. \<not> P c" s] d by simp
  ultimately show "((P, dropWhile P (c # cs)), (P, s)) \<in> measure (\<lambda>(P, s). length s)"
    by simp
qed

declare words_of.simps [simp del]

definition tokens_of :: "js_builtins \<Rightarrow> jsstring \<Rightarrow> jsstring set" where
  "tokens_of rt txt =
     {w \<in> set (words_of (token_unit rt) (toLowerCase rt txt)).
        length w > 2 \<and> w \<notin> set stopWords}"

text \<open>The query tokens that match a token of a text, one containing the other as a
  contiguous substring, and their share of the query tokens.\<close>

definition matching_tokens :: "js_builtins \<Rightarrow> jsstring \<Rightarrow> jsstring \<Rightarrow> jsstring set" where
  "matching_tokens rt query txt =
     {kw \<in> tokens_of rt query. \<exists>dk \<in> tokens_of rt txt. sublist kw dk \<or> sublist dk kw}"

definition overlap_ratio :: "js_builtins \<Rightarrow> jsstring \<Rightarrow> jsstring \<Rightarrow> real" where
  "overlap_ratio rt query txt =
     real (card (matching_tokens rt query txt)) / real (max (card (tokens_of rt query)) 1)"

text \<open>The total length of the blocks charged to the budget for a list of chunks.\<close>

definition budget_size :: "chunk list \<Rightarrow> nat" where
  "budget_size chunks = sum_list (map (\<lambda>c. length (chunkText c)) chunks)"

section \<open>Example data\<close>

definition example_corpus :: "EmbeddedItem list" where
  "example_corpus =
     [\<lparr>item_id = str ''c1'', item_text = str ''one'', item_source = str ''d'',
       embedding = [1, 0], item_metadata = None\<rparr>,
      \<lparr>item_id = str ''c2'', item_text = str ''two'', item_source = str ''d'',
       embedding = [0, 1], item_metadata = None\<rparr>,
      \<lparr>item_id = str ''c3'', item_text = str ''three'', item_source = str ''e'',
       embedding = [1, 0], item_metadata = None\<rparr>]"

definition result_with_score :: "real \<Rightarrow> SearchResult" where
  "result_with_score s =
     \<lparr>id' = str ''a'', text' = str ''t'', source = str ''d'', score = s, metadata = None\<rparr>"

definition example_first :: SearchResult where
  "example_first =
     \<lparr>id' = str ''a'', text' = str ''alpha'', source = str ''d'', score = double 0.5412,
      metadata = Some \<lparr>position = 0, totalChunks = 2\<rparr>\<rparr>"

definition example_second :: SearchResult where
  "example_second =
     \<lparr>id' = str ''b'', text' = str ''beta'', source = str ''d'', score = double 0.6,
      metadata = Some \<lparr>position = 1, totalChunks = 2\<rparr>\<rparr>"

definition config_with :: "string \<Rightarrow> RerankerConfig" where
  "config_with m = DEFAULT_RERANKER_CONFIG\<lparr>RerankerConfig.rerank_method := str m\<rparr>"

definition example_rounding :: SearchResult where
  "example_rounding =
     \<lparr>id' = str ''c'', text' = str ''alpha'', source = str ''d'', score = double 0.5002,
      metadata = None\<rparr>"

definition example_query :: jsstring where
  "example_query = str ''Used data''"

definition example_candidate :: SearchResult where
  "example_candidate =
     \<lparr>id' = str ''k'', text' = str ''database is used'', source = str ''d'', score = 0.5,
      metadata = None\<rparr>"

text \<open>The context of the second example candidate alone: the header "--- DOKUMENT 1: d
  ---", an empty line, the header "[Fragment 1, relevantnost': 60.0%]" and the text.\<close>

definition example_context :: jsstring where
  "example_context =
     [45, 45, 45, 32, 1044, 1054, 1050, 1059, 1052, 1045, 1053, 1058, 32,
      49, 58, 32, 100, 32, 45, 45, 45, 10, 10, 91, 1060, 1088, 1072, 1075,
      1084, 1077, 1085, 1090, 32, 49, 44, 32, 1088, 1077, 1083, 1077, 1074,
      1072, 1085, 1090, 1085, 1086, 1089, 1090, 1100, 58, 32, 54, 48, 46,
      48, 37, 93, 10, 98, 101, 116, 97]"

section \<open>Properties of the stable sort\<close>

lemma set_insort_cmp: "set (insort_cmp cmp x ys) = insert x (set ys)"
  by (induction ys) auto

lemma mset_insort_cmp: "mset (insort_cmp cmp x ys) = add_mset x (mset ys)"
  by (induction ys) auto

lemma sort_cmp_Cons: "sort_cmp cmp (x # xs) = insort_cmp cmp x (sort_cmp cmp xs)"
  by (simp add: sort_cmp_def)

lemma mset_sort_cmp: "mset (sort_cmp cmp xs) = mset xs"
  by (induction xs) (auto simp: sort_cmp_def mset_insort_cmp)

lemma set_sort_cmp: "set (sort_cmp cmp xs) = set xs"
  using mset_sort_cmp [of cmp xs] by (metis set_mset_mset)

lemma length_sort_cmp: "length (sort_cmp cmp xs) = length xs"
  using mset_sort_cmp [of cmp xs] by (metis size_mset)

lemma mset_map_sort_cmp: "mset (map f (sort_cmp cmp xs)) = mset (map f xs)"
  by (metis mset_map mset_sort_cmp)

text \<open>With a comparator that subtracts keys, the result descends by key.\<close>

lemma sorted_insort_cmp:
  assumes "\<And>a b. cmp a b = f b - f a" and "sorted_wrt (\<lambda>a b. f a \<ge> f b) ys"
  shows "sorted_wrt (\<lambda>a b. f a \<ge> f b) (insort_cmp cmp x ys)"
  using assms(2)
proof (induction ys)
  case Nil
  then show ?case by simp
next
  case (Cons y ys)
  show ?case
  proof (cases "cmp x y \<le> 0")
    case True
    then have "f y \<le> f x" using assms(1) by simp
    with Cons.prems show ?thesis using True by fastforce
  next
    case False
    then have "f x < f y" using assms(1) by simp
    with Cons show ?thesis using False by (auto simp: set_insort_cmp)
  qed
qed

lemma sorted_sort_cmp:
  assumes "\<And>a b. cmp a b = f b - f a"
  shows "sorted_wrt (\<lambda>a b. f a \<ge> f b) (sort_cmp cmp xs)"
  by (induction xs) (auto simp: sort_cmp_def intro: sorted_insort_cmp [OF assms])

text \<open>Stability: the elements of one key keep their order.\<close>

lemma filter_insort_cmp:
  assumes "\<And>a b. cmp a b = f b - f a" and "sorted_wrt (\<lambda>a b. f a \<ge> f b) ys"
  shows "filter (\<lambda>r. f r = s) (insort_cmp cmp x ys) = filter (\<lambda>r. f r = s) (x # ys)"
  using assms(2)
proof (induction ys)
  case Nil
  then show ?case by simp
next
  case (Cons y ys)
  show ?case
  proof (cases "cmp x y \<le> 0")
    case True
    then show ?thesis by simp
  next
    case False
    then have lt: "f x < f y" using assms(1) by simp
    have ih: "filter (\<lambda>r. f r = s) (insort_cmp cmp x ys) = filter (\<lambda>r. f r = s) (x # ys)"
      using Cons by simp
    show ?thesis using False lt ih by auto
  qed
qed

lemma filter_sort_cmp:
  assumes "\<And>a b. cmp a b = f b - f a"
  shows "filter (\<lambda>r. f r = s) (sort_cmp cmp xs) = filter (\<lambda>r. f r = s) xs"
proof (induction xs)
  case Nil
  then show ?case by (simp add: sort_cmp_def)
next
  case (Cons x xs)
  have "filter (\<lambda>r. f r = s) (sort_cmp cmp (x # xs))
        = filter (\<lambda>r. f r = s) (x # sort_cmp cmp xs)"
    unfolding sort_cmp_Cons
    by (rule filter_insort_cmp [OF assms sorted_sort_cmp [OF assms]])
  then show ?case using Cons by simp
qed

text \<open>When the input ascends by a secondary key \<open>g\<close>, equal keys end up in ascending
  order of \<open>g\<close>.\<close>

lemma insort_cmp_lex:
  assumes "\<And>a b. cmp a b = f b - f a"
    and "sorted_wrt (\<lambda>a b. f a > f b \<or> (f a = f b \<and> g a < g b)) ys"
    and "\<forall>y \<in> set ys. (g x :: nat) < g y"
  shows "sorted_wrt (\<lambda>a b. f a > f b \<or> (f a = f b \<and> g a < g b)) (insort_cmp cmp x ys)"
  using assms(2,3)
proof (induction ys)
  case Nil
  then show ?case by simp
next
  case (Cons y ys)
  show ?case
  proof (cases "cmp x y \<le> 0")
    case True
    then have "f y \<le> f x" using assms(1) by simp
    with Cons.prems show ?thesis using True by fastforce
  next
    case False
    then have "f x < f y" using assms(1) by simp
    with Cons show ?thesis using False by (auto simp: set_insort_cmp)
  qed
qed

lemma sort_cmp_lex:
  assumes "\<And>a b. cmp a b = f b - f a"
    and "sorted_wrt (\<lambda>a b. (g a :: nat) < g b) xs"
  shows "sorted_wrt (\<lambda>a b. f a > f b \<or> (f a = f b \<and> g a < g b)) (sort_cmp cmp xs)"
  using assms(2)
proof (induction xs)
  case Nil
  then show ?case by (simp add: sort_cmp_def)
next
  case (Cons x xs)
  then have "\<forall>y \<in> set (sort_cmp cmp xs). g x < g y"
    by (simp add: set_sort_cmp)
  moreover have "sorted_wrt (\<lambda>a b. f a > f b \<or> (f a = f b \<and> g a < g b)) (sort_cmp cmp xs)"
    using Cons by simp
  ultimately show ?case
    unfolding sort_cmp_Cons by (intro insort_cmp_lex [OF assms(1)])
qed

lemma sorted_wrt_take: "sorted_wrt P xs \<Longrightarrow> sorted_wrt P (take n xs)"
  by (metis append_take_drop_id sorted_wrt_append)

lemma prefix_filter_take: "prefix (filter P (take n xs)) (filter P xs)"
  by (metis append_take_drop_id filter_append prefixI)

lemma length_str [simp]: "length (str s) = length s"
  by (simp add: str_def)

section \<open>The similarity scorer and the retriever\<close>

lemma dot_loop_sum:
  "dot_loop vec1 vec2 i d = d + (\<Sum>k = i..<length vec1. vec1 ! k * vec2 ! k)"
proof (induction vec1 vec2 i d rule: dot_loop.induct)
  case (1 vec1 vec2 i d)
  show ?case
  proof (cases "i < length vec1")
    case True
    with "1" show ?thesis
      by (subst dot_loop.simps) (simp add: sum.atLeast_Suc_lessThan add.assoc)
  next
    case False
    then show ?thesis by (subst dot_loop.simps) simp
  qed
qed

text \<open>
  C9.  For two vectors of equal length \<open>cosineSimilarity\<close> returns their dot product, the
  sum of the pointwise products with no normalisation and no division; it fails with the
  dimension error exactly when the lengths differ.
\<close>

theorem cosineSimilarity_dot_product:
  "(length vec1 = length vec2 \<longrightarrow> cosineSimilarity vec1 vec2 = Inr (dot_product vec1 vec2))
   \<and> (length vec1 \<noteq> length vec2 \<longrightarrow>
        cosineSimilarity vec1 vec2 = Inl (Error dimension_message))
   \<and> ((\<exists>e. cosineSimilarity vec1 vec2 = Inl e) \<longleftrightarrow> length vec1 \<noteq> length vec2)"
  by (simp add: cosineSimilarity_def dot_loop_sum lessThan_atLeast0 dot_product_def)

theorem cosineSimilarity_dot_product_witness:
  "cosineSimilarity [1, 2, 3] [4, 5, 6] = Inr 32
   \<and> cosineSimilarity [1, 2] [4, 5, 6] = Inl (Error dimension_message)"
  using cosineSimilarity_dot_product [of "[1, 2, 3]" "[4, 5, 6]"]
    cosineSimilarity_dot_product [of "[1, 2]" "[4, 5, 6]"]
  by (simp add: dot_product_def lessThan_nat_numeral lessThan_Suc)

lemma score_items_ok:
  "\<forall>item \<in> set items. length (embedding item) = length q \<Longrightarrow>
   score_items q items = Inr (map (scored q) items)"
  by (induction items)
     (auto simp: cosineSimilarity_def dot_loop_sum lessThan_atLeast0 scored_def dot_product_def)

text \<open>
  C3.  For a corpus whose embeddings have the dimension of the query vector and for
  \<open>k \<ge> 0\<close>, \<open>findMostSimilar\<close> returns \<open>min k |corpus|\<close> results, in non-increasing
  order of score, and the results of one score are the first corpus items of that score
  in corpus order.
\<close>

theorem findMostSimilar_top_k:
  assumes "\<forall>item \<in> set items. length (embedding item) = length q" and "0 \<le> k"
  shows "\<exists>rs. findMostSimilar q items k = Inr rs
     \<and> length rs = min (nat k) (length items)
     \<and> sorted_wrt (\<lambda>a b. score a \<ge> score b) rs
     \<and> (\<forall>s. prefix (filter (\<lambda>r. score r = s) rs)
                    (filter (\<lambda>r. score r = s) (map (scored q) items)))"
proof -
  let ?all = "map (scored q) items"
  let ?srt = "sort_cmp by_score_desc ?all"
  have cmp: "\<And>a b :: SearchResult. by_score_desc a b = score b - score a"
    by (simp add: by_score_desc_def)
  have eq: "findMostSimilar q items k = Inr (take (nat k) ?srt)"
    using assms
    by (simp add: findMostSimilar_def score_items_ok slice0_def Let_def length_sort_cmp min_def)
  have len: "length (take (nat k) ?srt) = min (nat k) (length items)"
    by (simp add: length_sort_cmp)
  have srt: "sorted_wrt (\<lambda>a b. score a \<ge> score b) (take (nat k) ?srt)"
    by (rule sorted_wrt_take) (rule sorted_sort_cmp [OF cmp])
  have stab: "prefix (filter (\<lambda>r. score r = s) (take (nat k) ?srt))
                (filter (\<lambda>r. score r = s) ?all)" for s
    using prefix_filter_take [of "\<lambda>r. score r = s" "nat k" ?srt]
    by (simp add: filter_sort_cmp [OF cmp])
  show ?thesis using eq len srt stab by blast
qed

theorem findMostSimilar_top_k_witness:
  "\<exists>rs. findMostSimilar [1, 0] example_corpus 2 = Inr rs
     \<and> length rs = min (nat 2) (length example_corpus)
     \<and> sorted_wrt (\<lambda>a b. score a \<ge> score b) rs
     \<and> (\<forall>s. prefix (filter (\<lambda>r. score r = s) rs)
                    (filter (\<lambda>r. score r = s) (map (scored [1, 0]) example_corpus)))"
proof -
  have dims: "\<forall>item \<in> set example_corpus. length (embedding item) = length [1, 0 :: real]"
    by (simp add: example_corpus_def)
  have k: "(0 :: int) \<le> 2"
    by simp
  show ?thesis
    by (rule findMostSimilar_top_k [OF dims k])
qed

section \<open>The quality evaluator\<close>

lemma fold_score_sum:
  "fold (\<lambda>r sum. sum + score r) results a = a + sum_list (map score results)"
  by (induction results arbitrary: a) auto

lemma math_max_Max: "xs \<noteq> [] \<Longrightarrow> math_max xs = Max (set xs)"
  by (induction xs rule: math_max.induct) auto

lemma evaluate_nonempty:
  assumes "results \<noteq> []"
  shows "evaluateContextQuality results =
     (if max_score results > 0.7 \<and> mean_score results > 0.5
      then \<lparr>quality = Quality_high, confidence = 0.9, recommendation = recommendation_high,
            avgScore = Some (parseFloat_toFixed4 (mean_score results)),
            maxScore = Some (parseFloat_toFixed4 (max_score results)),
            totalChunks = Some (length results)\<rparr>
      else if max_score results > 0.5 \<and> mean_score results > 0.3
      then \<lparr>quality = Quality_medium, confidence = 0.6, recommendation = recommendation_medium,
            avgScore = Some (parseFloat_toFixed4 (mean_score results)),
            maxScore = Some (parseFloat_toFixed4 (max_score results)),
            totalChunks = Some (length results)\<rparr>
      else \<lparr>quality = Quality_low, confidence = 0.3, recommendation = recommendation_low,
            avgScore = Some (parseFloat_toFixed4 (mean_score results)),
            maxScore = Some (parseFloat_toFixed4 (max_score results)),
            totalChunks = Some (length results)\<rparr>)"
proof -
  have m: "math_max (map score results) = max_score results"
    using assms by (simp add: math_max_Max max_score_def)
  have a: "fold (\<lambda>r sum. sum + score r) results 0 / real (length results) = mean_score results"
    by (simp add: fold_score_sum mean_score_def)
  show ?thesis
    using assms unfolding evaluateContextQuality_def Let_def m a by simp
qed





section \<open>Evaluating binary64 arithmetic\<close>

lemma double_zero [simp]: "double 0 = 0"
  by (simp add: double_def)

lemma double_nonzero:
  "x \<noteq> 0 \<Longrightarrow>
   double x = sgn x * of_int (round_half_even (\<bar>x\<bar> / ulp (binary_exponent \<bar>x\<bar>)))
              * ulp (binary_exponent \<bar>x\<bar>)"
  by (simp add: double_def Let_def)

lemmas binary64 = double_nonzero binary_exponent_def exponent_up.simps exponent_down.simps
  round_half_even_def ulp_def fadd_def fmul_def Let_def

section \<open>The reranker\<close>

lemma keyword_entry_fields [simp]:
  "id' (keyword_entry rt qk (i, r)) = id' r"
  "score (keyword_entry rt qk (i, r)) = score r"
  "text' (keyword_entry rt qk (i, r)) = text' r"
  "original_rank (keyword_entry rt qk (i, r)) = i + 1"
  "RankedResult.rerank_method (keyword_entry rt qk (i, r)) = str ''keyword-boost''"
  by (simp_all add: keyword_entry_def Let_def)

lemma semantic_entry_fields [simp]:
  "id' (semantic_entry rt q (i, r)) = id' r"
  "score (semantic_entry rt q (i, r)) = score r"
  "text' (semantic_entry rt q (i, r)) = text' r"
  "original_rank (semantic_entry rt q (i, r)) = i + 1"
  "RankedResult.rerank_method (semantic_entry rt q (i, r)) = str ''semantic-deep''"
  by (simp_all add: semantic_entry_def Let_def)

lemma none_entry_fields [simp]:
  "id' (none_entry (i, r)) = id' r"
  "score (none_entry (i, r)) = score r"
  "rerank_score (none_entry (i, r)) = score r"
  "original_rank (none_entry (i, r)) = i + 1"
  "RankedResult.rerank_method (none_entry (i, r)) = str ''none''"
  by (simp_all add: none_entry_def Let_def)

lemma hybrid_entry_fields [simp]:
  "id' (hybrid_entry m r) = id' r"
  "score (hybrid_entry m r) = score r"
  "original_rank (hybrid_entry m r) = original_rank r"
  "boost_reason (hybrid_entry m r) = boost_reason r"
  "RankedResult.rerank_method (hybrid_entry m r) = str ''hybrid''"
  by (simp_all add: hybrid_entry_def Let_def)

lemma map_enumerate_snd:
  "(\<And>i r. g (f (i, r)) = h r) \<Longrightarrow> map (\<lambda>ir. g (f ir)) (enumerate n rs) = map h rs"
  by (induction rs arbitrary: n) auto

lemma ids_keywords: "mset (map id' (rerankByKeywords rt q rs)) = mset (map id' rs)"
  unfolding rerankByKeywords_def Let_def mset_map_sort_cmp map_map comp_def
  by (simp add: map_enumerate_snd)

lemma ids_semantic: "mset (map id' (rerankBySemantic rt q rs)) = mset (map id' rs)"
  unfolding rerankBySemantic_def Let_def mset_map_sort_cmp map_map comp_def
  by (simp add: map_enumerate_snd)

lemma ids_hybrid: "mset (map id' (rerankHybrid rt q rs)) = mset (map id' rs)"
proof -
  have "mset (map id' (rerankHybrid rt q rs)) = mset (map id' (rerankByKeywords rt q rs))"
    unfolding rerankHybrid_def Let_def mset_map_sort_cmp map_map comp_def by simp
  then show ?thesis by (simp only: ids_keywords)
qed

lemma ids_none: "map id' (map none_entry (enumerate 0 rs)) = map id' rs"
  unfolding map_map comp_def by (simp add: map_enumerate_snd)

text \<open>
  C2.  For every query, every list of search results and every rerank method (a
  recognised one or not), the ids of the list returned by \<open>rerankResults\<close> are the ids of
  the input, each as often as in the input, and the list has the length of the input.
\<close>

theorem rerankResults_preserves_ids:
  "mset (map id' (rerankResults rt query searchResults config)) = mset (map id' searchResults)
   \<and> set (map id' (rerankResults rt query searchResults config)) = set (map id' searchResults)
   \<and> length (rerankResults rt query searchResults config) = length searchResults"
proof -
  have m: "mset (map id' (rerankResults rt query searchResults config))
           = mset (map id' searchResults)"
    unfolding rerankResults_def
    by (simp add: ids_keywords ids_semantic ids_hybrid ids_none del: map_map mset_map)
  have s: "set (map id' (rerankResults rt query searchResults config))
           = set (map id' searchResults)"
    using m by (metis set_mset_mset)
  have l: "length (rerankResults rt query searchResults config) = length searchResults"
    using m by (metis length_map size_mset)
  show ?thesis using m s l by blast
qed

theorem rerankResults_preserves_ids_witness:
  "mset (map id' (rerankResults basic_builtins [] [example_first, example_second]
                    (config_with ''hybrid'')))
     = mset [str ''a'', str ''b'']"
  using rerankResults_preserves_ids
    [of basic_builtins "[]" "[example_first, example_second]" "config_with ''hybrid''"]
  by (simp add: example_first_def example_second_def)

lemma hybrid_methods:
  "\<forall>r \<in> set (rerankHybrid rt q rs). RankedResult.rerank_method r = str ''hybrid''"
  by (auto simp: rerankHybrid_def Let_def set_sort_cmp)

lemma rerankHybrid_Nil: "rerankHybrid rt query [] = []"
  by (simp add: rerankHybrid_def rerankByKeywords_def sort_cmp_def)

text \<open>
  C10.  With \<open>rerank_method\<close> set to \<open>'llm'\<close> or to any other value that is none of
  \<open>'keyword-boost'\<close>, \<open>'semantic-deep'\<close>, \<open>'hybrid'\<close> and \<open>'none'\<close>, \<open>rerankResults\<close>
  returns the hybrid reranking of the candidates, whose \<open>rerank_method\<close> fields read
  \<open>'hybrid'\<close>.
\<close>

theorem rerankResults_unrecognized_method:
  assumes "RerankerConfig.rerank_method config \<notin>
             {str ''keyword-boost'', str ''semantic-deep'', str ''hybrid'', str ''none''}"
  shows "rerankResults rt query searchResults config = rerankHybrid rt query searchResults
     \<and> (\<forall>r \<in> set (rerankResults rt query searchResults config).
           RankedResult.rerank_method r = str ''hybrid'')"
proof -
  have "rerankResults rt query searchResults config = rerankHybrid rt query searchResults"
    using assms rerankHybrid_Nil
    by (cases searchResults) (simp_all add: rerankResults_def)
  then show ?thesis using hybrid_methods by simp
qed

theorem rerankResults_unrecognized_method_witness:
  "rerankResults basic_builtins [] [example_first, example_second] (config_with ''llm'')
     = rerankHybrid basic_builtins [] [example_first, example_second]
   \<and> map RankedResult.rerank_method
         (rerankResults basic_builtins [] [example_first, example_second] (config_with ''llm''))
       = [str ''hybrid'', str ''hybrid'']"
proof -
  have llm: "RerankerConfig.rerank_method (config_with ''llm'') \<notin>
               {str ''keyword-boost'', str ''semantic-deep'', str ''hybrid'', str ''none''}"
    by (simp add: config_with_def str_def)
  have two: "length (rerankHybrid basic_builtins [] [example_first, example_second]) = 2"
    by (simp add: rerankHybrid_def rerankByKeywords_def Let_def length_sort_cmp)
  have all: "\<forall>r \<in> set xs. RankedResult.rerank_method r = m \<Longrightarrow> length xs = 2 \<Longrightarrow>
             map RankedResult.rerank_method xs = [m, m]" for xs :: "RankedResult list" and m
    by (cases xs; cases "tl xs") auto
  show ?thesis
    using rerankResults_unrecognized_method [OF llm, of basic_builtins "[]"
        "[example_first, example_second]"] two all
    by metis
qed

lemma ranks_enumerate:
  "(\<And>i r. original_rank (f (i, r)) = i + 1) \<Longrightarrow>
   sorted_wrt (\<lambda>a b. original_rank a < original_rank b) (map f (enumerate n rs))"
proof (induction rs arbitrary: n)
  case Nil
  then show ?case by simp
next
  case (Cons r rs)
  have "\<forall>y \<in> set (map f (enumerate (Suc n) rs)). n + 1 < original_rank y"
    using Cons.prems by (auto simp: in_set_enumerate_eq)
  then show ?case using Cons by simp
qed

lemma by_rerank: "by_rerank_desc a b = rerank_score b - rerank_score a"
  by (simp add: by_rerank_desc_def)

lemma none_ranks:
  "map original_rank (map none_entry (enumerate n rs)) = [n + 1 ..< n + length rs + 1]"
  by (induction rs arbitrary: n) (auto simp: upt_conv_Cons simp del: upt_Suc)

lemma none_scores: "map rerank_score (map none_entry (enumerate n rs)) = map score rs"
  unfolding map_map comp_def by (simp add: map_enumerate_snd)

subsection \<open>The program on the two example candidates\<close>

lemma extractKeywords_empty: "extractKeywords basic_builtins [] = []"
  by (simp add: extractKeywords_def basic_builtins_def split_whitespace_def
        set_in_insertion_order_def)

lemma keyword_entry_no_keywords:
  "keyword_entry rt [] (i, r) =
     \<lparr>id' = id' r, text' = text' r, source = source r, score = score r, metadata = metadata r,
      rerank_score = parseFloat_toFixed4 (fadd (fmul (score r) 0.7) (fmul 0 0.3)),
      rerank_method = str ''keyword-boost'', original_rank = i + 1, boost_reason = None\<rparr>"
  by (simp add: keyword_entry_def matchingKeywords_def Let_def)

lemma example_keyword_scores:
  "parseFloat_toFixed4 (fadd (fmul (double (1353 / 2500)) (7 / 10)) (fmul 0 (3 / 10)))
     = double (947 / 2500)"
  "parseFloat_toFixed4 (fadd (fmul (double (3 / 5)) (7 / 10)) (fmul 0 (3 / 10)))
     = double (21 / 50)"
  by (simp_all add: parseFloat_toFixed4_def binary64)

lemma example_keyword_first:
  "keyword_entry basic_builtins [] (0, example_first) =
     \<lparr>id' = [97], text' = str ''alpha'', source = str ''d'', score = double (1353 / 2500),
      metadata = Some \<lparr>position = 0, totalChunks = 2\<rparr>,
      rerank_score = double (947 / 2500),
      rerank_method = str ''keyword-boost'', original_rank = 1, boost_reason = None\<rparr>"
  by (simp add: keyword_entry_no_keywords example_first_def example_keyword_scores str_def)

lemma example_keyword_second:
  "keyword_entry basic_builtins [] (Suc 0, example_second) =
     \<lparr>id' = [98], text' = str ''beta'', source = str ''d'', score = double (3 / 5),
      metadata = Some \<lparr>position = 1, totalChunks = 2\<rparr>,
      rerank_score = double (21 / 50),
      rerank_method = str ''keyword-boost'', original_rank = 2, boost_reason = None\<rparr>"
  by (simp add: keyword_entry_no_keywords example_second_def example_keyword_scores str_def)

lemma example_keyword_order: "double (947 / 2500) < double (21 / 50)"
  by (simp add: binary64)

lemma example_keywords:
  "rerankByKeywords basic_builtins [] [example_first, example_second] =
     [keyword_entry basic_builtins [] (Suc 0, example_second),
      keyword_entry basic_builtins [] (0, example_first)]"
  unfolding rerankByKeywords_def extractKeywords_empty Let_def
  using example_keyword_order
  by (simp add: enumerate_eq_zip sort_cmp_def by_rerank_desc_def example_keyword_first
        example_keyword_second)

lemma split_whitespace_empty: "split_whitespace [] = [[]]"
  by (simp add: split_whitespace_def)

lemma example_no_data:
  "\<not> hasSpecificData (str ''alpha'')" "\<not> hasSpecificData (str ''beta'')"
  by (simp_all add: hasSpecificData_def str_def isDigit_def isCapital_def)

lemma semantic_entry_plain:
  assumes "\<not> hasSpecificData (text' r)" and "length (text' r) < 200"
  shows "rerank_score (semantic_entry basic_builtins [] (i, r))
     = parseFloat_toFixed4
         (min (fadd (fadd (fadd (fadd (score r)
                 (case metadata r of None \<Rightarrow> 0
                  | Some m \<Rightarrow> if position m = 0 then 1 / 10 else 0)) 0) 0) 0) 1)"
proof -
  have z: "fmul 0 (1 / 20) = 0"
    by (simp add: fmul_def)
  have h: "min 0 (double (3 / 20)) = 0"
    by (simp add: binary64)
  show ?thesis
    using assms
    by (simp add: semantic_entry_def Let_def basic_builtins_def split_whitespace_empty z h)
qed

lemma example_semantic_values:
  "parseFloat_toFixed4 (min (fadd (fadd (fadd (fadd (double (1353 / 2500)) (1 / 10)) 0) 0) 0) 1)
     = double (1603 / 2500)"
  "parseFloat_toFixed4 (min (fadd (fadd (fadd (fadd (double (3 / 5)) 0) 0) 0) 0) 1)
     = double (3 / 5)"
  by (simp_all add: parseFloat_toFixed4_def binary64)

lemma example_semantic_scores:
  "rerank_score (semantic_entry basic_builtins [] (0, example_first)) = double (1603 / 2500)"
  "rerank_score (semantic_entry basic_builtins [] (Suc 0, example_second)) = double (3 / 5)"
proof -
  have f: "\<not> hasSpecificData (text' example_first)" "length (text' example_first) < 200"
    and s: "\<not> hasSpecificData (text' example_second)" "length (text' example_second) < 200"
    by (simp_all add: example_first_def example_second_def example_no_data)
  show "rerank_score (semantic_entry basic_builtins [] (0, example_first))
          = double (1603 / 2500)"
    unfolding semantic_entry_plain [OF f]
    by (simp add: example_first_def example_semantic_values)
  show "rerank_score (semantic_entry basic_builtins [] (Suc 0, example_second))
          = double (3 / 5)"
    unfolding semantic_entry_plain [OF s]
    by (simp add: example_second_def example_semantic_values)
qed

lemma example_semantic_order: "double (3 / 5) < double (1603 / 2500)"
  by (simp add: binary64)

lemma example_semantic:
  "rerankBySemantic basic_builtins [] [example_first, example_second] =
     [semantic_entry basic_builtins [] (0, example_first),
      semantic_entry basic_builtins [] (Suc 0, example_second)]"
  unfolding rerankBySemantic_def
  using example_semantic_order
  by (simp add: enumerate_eq_zip sort_cmp_def by_rerank_desc_def example_semantic_scores)

lemma example_semantic_nonzero: "double (1603 / 2500) \<noteq> 0" "double (3 / 5) \<noteq> 0"
  by (simp_all add: binary64)

lemma example_hybrid_values:
  "parseFloat_toFixed4 (fadd (fmul (double (947 / 2500)) (1 / 2))
                             (fmul (double (1603 / 2500)) (1 / 2))) = double (51 / 100)"
  "parseFloat_toFixed4 (fadd (fmul (double (21 / 50)) (1 / 2))
                             (fmul (double (3 / 5)) (1 / 2))) = double (51 / 100)"
  by (simp_all add: parseFloat_toFixed4_def binary64)

lemma example_hybrid_first:
  "rerank_score (hybrid_entry [([97], double (1603 / 2500)), ([98], double (3 / 5))]
                  (keyword_entry basic_builtins [] (0, example_first))) = double (51 / 100)"
  unfolding example_keyword_first
  by (simp add: hybrid_entry_def map_get_def example_semantic_nonzero example_hybrid_values)

lemma example_hybrid_second:
  "rerank_score (hybrid_entry [([97], double (1603 / 2500)), ([98], double (3 / 5))]
                  (keyword_entry basic_builtins [] (Suc 0, example_second))) = double (51 / 100)"
  unfolding example_keyword_second
  by (simp add: hybrid_entry_def map_get_def example_semantic_nonzero example_hybrid_values)

lemma example_hybrid:
  "rerankHybrid basic_builtins [] [example_first, example_second] =
     [hybrid_entry [([97], double (1603 / 2500)), ([98], double (3 / 5))]
        (keyword_entry basic_builtins [] (Suc 0, example_second)),
      hybrid_entry [([97], double (1603 / 2500)), ([98], double (3 / 5))]
        (keyword_entry basic_builtins [] (0, example_first))]"
proof -
  have ids: "id' example_first = [97]" "id' example_second = [98]"
    by (simp_all add: example_first_def example_second_def str_def)
  show ?thesis
    unfolding rerankHybrid_def example_keywords example_semantic Let_def
    by (simp add: example_semantic_scores ids sort_cmp_def by_rerank_desc_def
          example_hybrid_first example_hybrid_second)
qed

lemma example_score_order: "double (1353 / 2500) < double (3 / 5)"
  by (simp add: binary64)

lemma method_strings_distinct:
  "str ''keyword-boost'' \<noteq> str ''semantic-deep''"
  "str ''hybrid'' \<noteq> str ''keyword-boost''"
  "str ''hybrid'' \<noteq> str ''semantic-deep''"
  "str ''none'' \<noteq> str ''keyword-boost''"
  "str ''none'' \<noteq> str ''semantic-deep''"
  "str ''none'' \<noteq> str ''hybrid''"
  by (simp_all add: str_def)

lemma config_with_method [simp]:
  "RerankerConfig.rerank_method (config_with m) = str m"
  by (simp add: config_with_def)

text \<open>
  C6, as the claim states it: for every rerank method, the passthrough \<open>'none'\<close> included,
  and every input order the returned list descends by \<open>rerank_score\<close> with equal scores in
  original-position order.  It fails twice on the two example candidates, given in
  ascending order of score: under \<open>'none'\<close> the list comes back in input order, which
  ascends; under \<open>'hybrid'\<close> both get the score 0.51 and the second candidate comes first.
\<close>

theorem rerankResults_order_counterexample:
  "\<not> sorted_wrt (\<lambda>a b. rerank_score a \<ge> rerank_score b)
       (rerankResults basic_builtins [] [example_first, example_second] (config_with ''none''))
   \<and> map rerank_score
        (rerankResults basic_builtins [] [example_first, example_second]
           (config_with ''hybrid'')) = [double (51 / 100), double (51 / 100)]
   \<and> map original_rank
        (rerankResults basic_builtins [] [example_first, example_second]
           (config_with ''hybrid'')) = [2, 1]"
proof -
  have n: "rerankResults basic_builtins [] [example_first, example_second] (config_with ''none'')
           = [none_entry (0, example_first), none_entry (Suc 0, example_second)]"
    by (simp add: rerankResults_def method_strings_distinct enumerate_eq_zip)
  have h: "rerankResults basic_builtins [] [example_first, example_second]
             (config_with ''hybrid'')
           = rerankHybrid basic_builtins [] [example_first, example_second]"
    by (simp add: rerankResults_def method_strings_distinct)
  have p1: "\<not> sorted_wrt (\<lambda>a b. rerank_score a \<ge> rerank_score b)
       (rerankResults basic_builtins [] [example_first, example_second] (config_with ''none''))"
    unfolding n using example_score_order by (simp add: example_first_def example_second_def)
  have p2: "map rerank_score
        (rerankResults basic_builtins [] [example_first, example_second]
           (config_with ''hybrid'')) = [double (51 / 100), double (51 / 100)]"
    unfolding h example_hybrid by (simp add: example_hybrid_first example_hybrid_second)
  have p3: "map original_rank
        (rerankResults basic_builtins [] [example_first, example_second]
           (config_with ''hybrid'')) = [2, 1]"
    unfolding h example_hybrid by simp
  show ?thesis using p1 p2 p3 by blast
qed

text \<open>
  C6, amended.  Under \<open>'keyword-boost'\<close> and \<open>'semantic-deep'\<close> the returned list descends
  by \<open>rerank_score\<close> and candidates of equal score keep their original order; under every
  method other than \<open>'none'\<close> the list descends by \<open>rerank_score\<close>; under \<open>'none'\<close> the
  list is the input in its order, each candidate with its score as rerank score and its
  position as original rank.
\<close>

theorem rerankResults_order:
  "(RerankerConfig.rerank_method config \<in> {str ''keyword-boost'', str ''semantic-deep''}
      \<longrightarrow> sorted_wrt by_score_then_rank (rerankResults rt query searchResults config))
   \<and> (RerankerConfig.rerank_method config \<noteq> str ''none''
      \<longrightarrow> sorted_wrt (\<lambda>a b. rerank_score a \<ge> rerank_score b)
            (rerankResults rt query searchResults config))
   \<and> (RerankerConfig.rerank_method config = str ''none''
      \<longrightarrow> map rerank_score (rerankResults rt query searchResults config)
            = map score searchResults
        \<and> map original_rank (rerankResults rt query searchResults config)
            = [1 ..< length searchResults + 1])"
proof -
  let ?lex = "\<lambda>a b. rerank_score a > rerank_score b
      \<or> (rerank_score a = rerank_score b \<and> original_rank a < original_rank b)"
  have lexeq: "by_score_then_rank = ?lex"
    by (intro ext) (simp add: by_score_then_rank_def)
  have kw_lex: "sorted_wrt ?lex (rerankByKeywords rt query searchResults)"
    unfolding rerankByKeywords_def Let_def
    by (rule sort_cmp_lex [OF by_rerank]) (simp add: ranks_enumerate)
  have sem_lex: "sorted_wrt ?lex (rerankBySemantic rt query searchResults)"
    unfolding rerankBySemantic_def
    by (rule sort_cmp_lex [OF by_rerank]) (simp add: ranks_enumerate)
  have weaken: "sorted_wrt ?lex xs \<Longrightarrow> sorted_wrt (\<lambda>a b. rerank_score a \<ge> rerank_score b) xs"
    for xs :: "RankedResult list"
    by (erule sorted_wrt_mono_rel [rotated]) auto
  have hyb: "sorted_wrt (\<lambda>a b. rerank_score a \<ge> rerank_score b)
               (rerankHybrid rt query searchResults)"
    unfolding rerankHybrid_def Let_def by (rule sorted_sort_cmp [OF by_rerank])
  have p1: "RerankerConfig.rerank_method config \<in> {str ''keyword-boost'', str ''semantic-deep''}
      \<longrightarrow> sorted_wrt by_score_then_rank (rerankResults rt query searchResults config)"
    unfolding lexeq using kw_lex sem_lex method_strings_distinct(1)
    by (auto simp: rerankResults_def)
  have p2: "RerankerConfig.rerank_method config \<noteq> str ''none''
      \<longrightarrow> sorted_wrt (\<lambda>a b. rerank_score a \<ge> rerank_score b)
            (rerankResults rt query searchResults config)"
    using weaken [OF kw_lex] weaken [OF sem_lex] hyb by (simp add: rerankResults_def)
  have p3: "RerankerConfig.rerank_method config = str ''none''
      \<longrightarrow> map rerank_score (rerankResults rt query searchResults config)
            = map score searchResults
        \<and> map original_rank (rerankResults rt query searchResults config)
            = [1 ..< length searchResults + 1]"
  proof
    assume m: "RerankerConfig.rerank_method config = str ''none''"
    have r: "rerankResults rt query searchResults config
             = map none_entry (enumerate 0 searchResults)"
      using m method_strings_distinct
      by (cases searchResults) (simp_all add: rerankResults_def)
    show "map rerank_score (rerankResults rt query searchResults config)
            = map score searchResults
        \<and> map original_rank (rerankResults rt query searchResults config)
            = [1 ..< length searchResults + 1]"
      unfolding r using none_scores [of 0 searchResults] none_ranks [of 0 searchResults]
      by simp
  qed
  show ?thesis using p1 p2 p3 by blast
qed

theorem rerankResults_order_witness:
  "sorted_wrt by_score_then_rank
     (rerankResults basic_builtins [] [example_first, example_second]
        (config_with ''keyword-boost''))
   \<and> sorted_wrt (\<lambda>a b. rerank_score a \<ge> rerank_score b)
       (rerankResults basic_builtins [] [example_first, example_second]
          (config_with ''hybrid''))
   \<and> map original_rank
       (rerankResults basic_builtins [] [example_first, example_second]
          (config_with ''none'')) = [1 ..< length [example_first, example_second] + 1]"
  using rerankResults_order
      [of "config_with ''keyword-boost''" basic_builtins "[]"
          "[example_first, example_second]"]
    rerankResults_order
      [of "config_with ''hybrid''" basic_builtins "[]" "[example_first, example_second]"]
    rerankResults_order
      [of "config_with ''none''" basic_builtins "[]" "[example_first, example_second]"]
    method_strings_distinct
  by simp

subsection \<open>The keyword pass\<close>

lemma starts_with_prefix: "starts_with s p \<longleftrightarrow> prefix p s"
  by (induction s p rule: starts_with.induct) auto

lemma includes_str_sublist: "includes_str s sub \<longleftrightarrow> sublist sub s"
proof (induction s)
  case Nil
  then show ?case by simp
next
  case (Cons x xs)
  then show ?case
    by (simp add: starts_with_prefix sublist_Cons_right)
qed

lemma insertion_fold:
  "distinct acc \<Longrightarrow>
   distinct (fold (\<lambda>x acc. if x \<in> set acc then acc else acc @ [x]) xs acc)
   \<and> set (fold (\<lambda>x acc. if x \<in> set acc then acc else acc @ [x]) xs acc) = set acc \<union> set xs"
  by (induction xs arbitrary: acc) auto

lemma set_in_insertion_order [simp]:
  "distinct (set_in_insertion_order xs)" "set (set_in_insertion_order xs) = set xs"
  using insertion_fold [of "[]" xs] by (simp_all add: set_in_insertion_order_def)

lemma words_of_Nil [simp]: "words_of P [] = []"
  by (subst words_of.simps) simp

lemma words_of_skip: "\<not> P c \<Longrightarrow> words_of P (c # cs) = words_of P cs"
  by (subst words_of.simps, subst (2) words_of.simps) simp

lemma words_of_take:
  "P c \<Longrightarrow> words_of P (c # cs) = (c # takeWhile P cs) # words_of P (dropWhile P cs)"
  by (subst words_of.simps) simp

lemma split_ws_words:
  assumes "b \<longrightarrow> cur = []"
  shows "filter (\<lambda>w. w \<noteq> []) (split_ws b cur s)
     = (if cur = [] then words_of (\<lambda>c. \<not> isWhiteSpace c) s
        else (cur @ takeWhile (\<lambda>c. \<not> isWhiteSpace c) s)
             # words_of (\<lambda>c. \<not> isWhiteSpace c) (dropWhile (\<lambda>c. \<not> isWhiteSpace c) s))"
  using assms
proof (induction s arbitrary: b cur)
  case Nil
  then show ?case by simp
next
  case (Cons c s)
  show ?case
  proof (cases "isWhiteSpace c")
    case True
    have ih: "filter (\<lambda>w. w \<noteq> []) (split_ws True [] s) = words_of (\<lambda>c. \<not> isWhiteSpace c) s"
      using Cons.IH [of True "[]"] by simp
    show ?thesis
      using True Cons.prems ih by (simp add: words_of_skip)
  next
    case False
    have ih: "filter (\<lambda>w. w \<noteq> []) (split_ws False (cur @ [c]) s)
              = ((cur @ [c]) @ takeWhile (\<lambda>c. \<not> isWhiteSpace c) s)
                # words_of (\<lambda>c. \<not> isWhiteSpace c) (dropWhile (\<lambda>c. \<not> isWhiteSpace c) s)"
      using Cons.IH [of False "cur @ [c]"] by simp
    show ?thesis
      using False ih by (simp add: words_of_take)
  qed
qed

lemma split_whitespace_words:
  "filter (\<lambda>w. w \<noteq> []) (split_whitespace s) = words_of (\<lambda>c. \<not> isWhiteSpace c) s"
  using split_ws_words [of False "[]" s] by (simp add: split_whitespace_def)

lemma words_of_map:
  assumes "\<And>c. Q (f c) = P c" and "\<And>c. P c \<Longrightarrow> f c = c"
  shows "words_of Q (map f s) = words_of P s"
proof (induction s rule: length_induct)
  case (1 s)
  show ?case
  proof (cases s)
    case Nil
    then show ?thesis by simp
  next
    case (Cons c cs)
    show ?thesis
    proof (cases "P c")
      case False
      then have "\<not> Q (f c)" using assms(1) by simp
      moreover have "words_of Q (map f cs) = words_of P cs"
        using "1" Cons by simp
      ultimately show ?thesis using Cons False by (simp add: words_of_skip)
    next
      case True
      have fc: "f c = c" using True assms(2) by blast
      have q: "Q (f c)" using True assms(1) by blast
      have comp: "Q \<circ> f = P" using assms(1) by (intro ext) simp
      have tk: "takeWhile Q (map f cs) = takeWhile P cs"
      proof -
        have "takeWhile Q (map f cs) = map f (takeWhile P cs)"
          by (simp add: takeWhile_map comp)
        also have "\<dots> = takeWhile P cs"
          using assms(2) by (intro map_idI) (auto dest: set_takeWhileD)
        finally show ?thesis .
      qed
      have dr: "dropWhile Q (map f cs) = map f (dropWhile P cs)"
        by (simp add: dropWhile_map comp)
      have "length (dropWhile P cs) < length s"
        using Cons length_dropWhile_le [of P cs] by simp
      then have ih: "words_of Q (map f (dropWhile P cs)) = words_of P (dropWhile P cs)"
        using "1" by simp
      have qc: "Q c" using q fc by simp
      show ?thesis
        using Cons True qc fc tk dr ih by (simp add: words_of_take)
    qed
  qed
qed

lemma space_is_white: "isWhiteSpace 32"
  by (simp add: isWhiteSpace_def whiteSpace_units_def)

lemma extractKeywords_tokens:
  "set (extractKeywords rt txt) = tokens_of rt txt \<and> distinct (extractKeywords rt txt)"
proof -
  let ?f = "\<lambda>c. if in_class_ignoreCase rt keyword_class c then c else 32"
  let ?s = "map ?f (toLowerCase rt txt)"
  let ?keep = "\<lambda>w :: jsstring. length w > 2 \<and> w \<notin> set stopWords"
  have w: "words_of (\<lambda>c. \<not> isWhiteSpace c) ?s = words_of (token_unit rt) (toLowerCase rt txt)"
    by (rule words_of_map) (auto simp: token_unit_def space_is_white)
  have "set (extractKeywords rt txt) = {w \<in> set (split_whitespace ?s). ?keep w}"
    by (auto simp: extractKeywords_def Let_def)
  also have "\<dots> = {w \<in> set (filter (\<lambda>w. w \<noteq> []) (split_whitespace ?s)). ?keep w}"
    by auto
  also have "\<dots> = tokens_of rt txt"
    unfolding split_whitespace_words w by (simp add: tokens_of_def)
  finally show ?thesis by (simp add: extractKeywords_def Let_def)
qed

lemma length_matchingKeywords:
  "length (matchingKeywords (extractKeywords rt query) (extractKeywords rt txt))
     = card (matching_tokens rt query txt)"
proof -
  let ?qk = "extractKeywords rt query" and ?dk = "extractKeywords rt txt"
  have d: "distinct (matchingKeywords ?qk ?dk)"
    using extractKeywords_tokens [of rt query] by (simp add: matchingKeywords_def)
  have "set (matchingKeywords ?qk ?dk)
      = {kw \<in> set ?qk. \<exists>d \<in> set ?dk. sublist kw d \<or> sublist d kw}"
    by (auto simp: matchingKeywords_def list_ex_iff includes_str_sublist)
  also have "\<dots> = matching_tokens rt query txt"
    using extractKeywords_tokens by (simp add: matching_tokens_def)
  finally show ?thesis using d by (metis distinct_card)
qed

lemma overlap_ratio_program:
  "overlap_ratio rt query txt =
     real (length (matchingKeywords (extractKeywords rt query) (extractKeywords rt txt)))
       / real (max (length (extractKeywords rt query)) 1)"
proof -
  have "length (extractKeywords rt query) = card (tokens_of rt query)"
    using extractKeywords_tokens [of rt query] by (metis distinct_card)
  then show ?thesis
    by (simp add: overlap_ratio_def length_matchingKeywords)
qed

lemma keyword_entry_formula:
  "rerank_score (keyword_entry rt (extractKeywords rt query) (i, x))
     = parseFloat_toFixed4
         (fadd (fmul (score x) 0.7) (fmul (double (overlap_ratio rt query (text' x))) 0.3))
   \<and> boost_reason (keyword_entry rt (extractKeywords rt query) (i, x))
     = (if card (matching_tokens rt query (text' x)) > 0
        then Some (found_prefix @ nat_to_string (card (matching_tokens rt query (text' x)))
                   @ keywords_suffix)
        else None)"
  unfolding overlap_ratio_program
  by (simp add: keyword_entry_def Let_def length_matchingKeywords del: length_greater_0_conv)

lemma builtins_simps:
  "canonicalize basic_builtins = upper_unit" "toLowerCase basic_builtins = map lower_unit"
  by (simp_all add: basic_builtins_def)

lemma example_query_tokens:
  "extractKeywords basic_builtins example_query = [[117, 115, 101, 100], [100, 97, 116, 97]]"
  by (simp add: extractKeywords_def builtins_simps str_def lower_unit_def upper_unit_def
        in_class_ignoreCase_def keyword_class_def whiteSpace_units_def isWhiteSpace_def
        split_whitespace_def set_in_insertion_order_def stopWords_def upt_conv_Cons
        example_query_def)

lemma example_candidate_tokens:
  "extractKeywords basic_builtins (str ''database is used'')
     = [[100, 97, 116, 97, 98, 97, 115, 101], [117, 115, 101, 100]]"
  by (simp add: extractKeywords_def builtins_simps str_def lower_unit_def upper_unit_def
        in_class_ignoreCase_def keyword_class_def whiteSpace_units_def isWhiteSpace_def
        split_whitespace_def set_in_insertion_order_def stopWords_def upt_conv_Cons)

lemma example_overlap:
  "overlap_ratio basic_builtins example_query (str ''database is used'') = 1"
  unfolding overlap_ratio_program example_query_tokens example_candidate_tokens
  by (simp add: matchingKeywords_def)

lemma overlap_no_tokens: "overlap_ratio basic_builtins [] txt = 0"
  by (simp add: overlap_ratio_program extractKeywords_empty matchingKeywords_def)

lemma example_keyword_rounding:
  "parseFloat_toFixed4 (fadd (fmul (double (2469 / 20000)) (7 / 10)) (fmul 0 (3 / 10)))
     = double (54 / 625)"
  "double (54 / 625) \<noteq> fadd (fmul (double (2469 / 20000)) (7 / 10)) (fmul 0 (3 / 10))"
  "double (54 / 625) \<noteq> 7 / 10 * double (2469 / 20000)"
  by (simp_all add: parseFloat_toFixed4_def binary64)

text \<open>
  C5, as the claim states it: the keyword-boost \<open>rerank_score\<close> equals
  \<open>0.7 * original_score + 0.3 * overlap_ratio\<close>.  For a candidate of score 0.12345 and the
  empty query the overlap ratio is 0; the program returns 0.0864, which is neither the
  value of the formula in double arithmetic (0.08641499999999999) nor its exact value.
\<close>

theorem rerankByKeywords_formula_counterexample:
  "map rerank_score
     (rerankByKeywords basic_builtins [] [result_with_score (double (2469 / 20000))])
     = [double (54 / 625)]
   \<and> double (54 / 625)
       \<noteq> fadd (fmul (score (result_with_score (double (2469 / 20000)))) 0.7)
               (fmul (double (overlap_ratio basic_builtins []
                                (text' (result_with_score (double (2469 / 20000)))))) 0.3)
   \<and> double (54 / 625)
       \<noteq> 0.7 * score (result_with_score (double (2469 / 20000)))
          + 0.3 * overlap_ratio basic_builtins []
                    (text' (result_with_score (double (2469 / 20000))))"
proof -
  have "rerankByKeywords basic_builtins [] [result_with_score (double (2469 / 20000))]
        = [keyword_entry basic_builtins [] (0, result_with_score (double (2469 / 20000)))]"
    unfolding rerankByKeywords_def extractKeywords_empty Let_def
    by (simp add: enumerate_eq_zip sort_cmp_def)
  then have "map rerank_score
               (rerankByKeywords basic_builtins [] [result_with_score (double (2469 / 20000))])
             = [double (54 / 625)]"
    by (simp add: keyword_entry_no_keywords result_with_score_def example_keyword_rounding)
  moreover have "double (54 / 625)
       \<noteq> fadd (fmul (score (result_with_score (double (2469 / 20000)))) 0.7)
               (fmul (double (overlap_ratio basic_builtins []
                                (text' (result_with_score (double (2469 / 20000)))))) 0.3)"
    using example_keyword_rounding(2) by (simp add: overlap_no_tokens result_with_score_def)
  moreover have "double (54 / 625)
       \<noteq> 0.7 * score (result_with_score (double (2469 / 20000)))
          + 0.3 * overlap_ratio basic_builtins []
                    (text' (result_with_score (double (2469 / 20000))))"
    using example_keyword_rounding(3) by (simp add: overlap_no_tokens result_with_score_def)
  ultimately show ?thesis by blast
qed

text \<open>
  C5, amended.  The query tokens are the deduplicated words of the lowercased query, over
  letters, digits and the underscore, that are longer than two units and are no stop
  words; a query token matches when it contains a token of the candidate's text or is
  contained in one, and the overlap ratio is the number of matching query tokens over the
  number of query tokens, at least 1.  The keyword pass returns one result for every
  candidate, with its position as original rank; its \<open>rerank_score\<close> is
  \<open>0.7 * original_score + 0.3 * overlap_ratio\<close> computed in double arithmetic and rounded
  to four decimals by \<open>toFixed(4)\<close>; its \<open>boost_reason\<close> is present, reporting the match
  count, exactly when that count is positive.
\<close>

theorem rerankByKeywords_formula:
  "length (rerankByKeywords rt query results) = length results
   \<and> (\<forall>i < length results.
        \<exists>r \<in> set (rerankByKeywords rt query results).
          original_rank r = i + 1 \<and> id' r = id' (results ! i)
          \<and> text' r = text' (results ! i) \<and> score r = score (results ! i)
          \<and> rerank_score r
              = parseFloat_toFixed4
                  (fadd (fmul (score (results ! i)) 0.7)
                        (fmul (double (overlap_ratio rt query (text' (results ! i)))) 0.3))
          \<and> boost_reason r
              = (if card (matching_tokens rt query (text' (results ! i))) > 0
                 then Some (found_prefix
                            @ nat_to_string (card (matching_tokens rt query (text' (results ! i))))
                            @ keywords_suffix)
                 else None))
   \<and> set (extractKeywords rt query) = tokens_of rt query
   \<and> distinct (extractKeywords rt query)"
proof -
  have len: "length (rerankByKeywords rt query results) = length results"
    by (simp add: rerankByKeywords_def Let_def length_sort_cmp)
  have each: "\<exists>r \<in> set (rerankByKeywords rt query results).
          original_rank r = i + 1 \<and> id' r = id' (results ! i)
          \<and> text' r = text' (results ! i) \<and> score r = score (results ! i)
          \<and> rerank_score r
              = parseFloat_toFixed4
                  (fadd (fmul (score (results ! i)) 0.7)
                        (fmul (double (overlap_ratio rt query (text' (results ! i)))) 0.3))
          \<and> boost_reason r
              = (if card (matching_tokens rt query (text' (results ! i))) > 0
                 then Some (found_prefix
                            @ nat_to_string (card (matching_tokens rt query (text' (results ! i))))
                            @ keywords_suffix)
                 else None)"
    if i: "i < length results" for i
  proof -
    let ?r = "keyword_entry rt (extractKeywords rt query) (i, results ! i)"
    have "(i, results ! i) \<in> set (enumerate 0 results)"
      using i by (simp add: in_set_enumerate_eq)
    then have mem: "?r \<in> set (rerankByKeywords rt query results)"
      by (simp add: rerankByKeywords_def Let_def set_sort_cmp)
    show ?thesis
      using keyword_entry_formula [of rt query i "results ! i"]
      by (intro bexI [OF _ mem]) simp
  qed
  show ?thesis using len each extractKeywords_tokens [of rt query] by blast
qed


lemma example_candidate_value:
  "parseFloat_toFixed4 (fadd (fmul (1 / 2) (7 / 10)) (fmul (double 1) (3 / 10)))
     = double (13 / 20)"
  by (simp add: parseFloat_toFixed4_def binary64)

theorem rerankByKeywords_formula_witness:
  "map rerank_score (rerankByKeywords basic_builtins example_query [example_candidate])
     = [parseFloat_toFixed4
          (fadd (fmul (score example_candidate) 0.7)
                (fmul (double (overlap_ratio basic_builtins example_query
                                 (text' example_candidate))) 0.3))]
   \<and> parseFloat_toFixed4
         (fadd (fmul (score example_candidate) 0.7)
               (fmul (double (overlap_ratio basic_builtins example_query
                                (text' example_candidate))) 0.3))
       = double (13 / 20)
   \<and> overlap_ratio basic_builtins example_query (text' example_candidate) = 1"
proof -
  let ?k = "keyword_entry basic_builtins (extractKeywords basic_builtins example_query)
              (0, example_candidate)"
  have one: "rerankByKeywords basic_builtins example_query [example_candidate] = [?k]"
    unfolding rerankByKeywords_def Let_def by (simp add: enumerate_eq_zip sort_cmp_def)
  have "\<exists>r \<in> set (rerankByKeywords basic_builtins example_query [example_candidate]).
          rerank_score r
            = parseFloat_toFixed4
                (fadd (fmul (score ([example_candidate] ! 0)) 0.7)
                      (fmul (double (overlap_ratio basic_builtins example_query
                                       (text' ([example_candidate] ! 0)))) 0.3))"
    using rerankByKeywords_formula [of basic_builtins example_query "[example_candidate]"]
    by fastforce
  then have f: "rerank_score ?k
      = parseFloat_toFixed4
          (fadd (fmul (score example_candidate) 0.7)
                (fmul (double (overlap_ratio basic_builtins example_query
                                 (text' example_candidate))) 0.3))"
    unfolding one by simp
  have o: "overlap_ratio basic_builtins example_query (text' example_candidate) = 1"
    by (simp add: example_candidate_def example_overlap)
  have v: "parseFloat_toFixed4
         (fadd (fmul (score example_candidate) 0.7)
               (fmul (double (overlap_ratio basic_builtins example_query
                                (text' example_candidate))) 0.3))
       = double (13 / 20)"
    unfolding o using example_candidate_value by (simp add: example_candidate_def)
  show ?thesis using one f o v by simp
qed

subsection \<open>The hybrid pass\<close>

lemma in_rerankByKeywords:
  "r \<in> set (rerankByKeywords rt query results) \<Longrightarrow>
   \<exists>i < length results. r = keyword_entry rt (extractKeywords rt query) (i, results ! i)"
  by (auto simp: rerankByKeywords_def Let_def set_sort_cmp in_set_enumerate_eq)

lemma in_rerankBySemantic:
  "r \<in> set (rerankBySemantic rt query results) \<Longrightarrow>
   \<exists>i < length results. r = semantic_entry rt query (i, results ! i)"
  by (auto simp: rerankBySemantic_def set_sort_cmp in_set_enumerate_eq)

lemma map_get_Some:
  "k \<in> fst ` set entries \<Longrightarrow> \<exists>v. map_get entries k = Some v \<and> (k, v) \<in> set entries"
proof -
  assume "k \<in> fst ` set entries"
  then have "k \<in> fst ` set (rev entries)" by simp
  then obtain v where v: "map_of (rev entries) k = Some v"
    by (metis domD dom_map_of_conv_image_fst)
  then have "(k, v) \<in> set entries"
    using map_of_SomeD by fastforce
  with v show ?thesis by (auto simp: map_get_def)
qed

lemma semantic_ids: "id' ` set (rerankBySemantic rt query results) = id' ` set results"
  using ids_semantic [of rt query results] by (metis set_map set_mset_mset)

lemma keyword_ids: "id' ` set (rerankByKeywords rt query results) = id' ` set results"
  using ids_keywords [of rt query results] by (metis set_map set_mset_mset)

lemma hybrid_entry_score:
  assumes "k \<in> set (rerankByKeywords rt query results)"
  shows "\<exists>s \<in> set (rerankBySemantic rt query results).
           id' s = id' k
           \<and> rerank_score
                (hybrid_entry (map (\<lambda>r. (id' r, rerank_score r))
                                 (rerankBySemantic rt query results)) k)
              = parseFloat_toFixed4
                  (fadd (fmul (rerank_score k) 0.5)
                        (fmul (if rerank_score s = 0 then score k else rerank_score s) 0.5))"
proof -
  let ?m = "map (\<lambda>r. (id' r, rerank_score r)) (rerankBySemantic rt query results)"
  have "id' k \<in> id' ` set (rerankBySemantic rt query results)"
    using assms keyword_ids semantic_ids by blast
  then have "id' k \<in> fst ` set ?m" by force
  then obtain v where v: "map_get ?m (id' k) = Some v" and mem: "(id' k, v) \<in> set ?m"
    using map_get_Some by meson
  from mem obtain s where s: "s \<in> set (rerankBySemantic rt query results)"
    "id' s = id' k" "rerank_score s = v"
    by auto
  have "rerank_score (hybrid_entry ?m k)
        = parseFloat_toFixed4
            (fadd (fmul (rerank_score k) 0.5)
                  (fmul (if rerank_score s = 0 then score k else rerank_score s) 0.5))"
    using v s(3) by (simp add: hybrid_entry_def Let_def)
  with s show ?thesis by blast
qed

lemma same_id_same_rank:
  assumes "distinct (map id' results)"
    and "k \<in> set (rerankByKeywords rt query results)"
    and "s \<in> set (rerankBySemantic rt query results)"
    and "id' s = id' k"
  shows "original_rank s = original_rank k"
proof -
  obtain i where i: "i < length results"
    "k = keyword_entry rt (extractKeywords rt query) (i, results ! i)"
    using in_rerankByKeywords [OF assms(2)] by blast
  obtain j where j: "j < length results" "s = semantic_entry rt query (j, results ! j)"
    using in_rerankBySemantic [OF assms(3)] by blast
  have "map id' results ! i = map id' results ! j"
    using assms(4) i j by simp
  then have "i = j"
    using nth_eq_iff_index_eq [OF assms(1), of i j] i(1) j(1) by simp
  then show ?thesis using i j by simp
qed

lemma example_rounding_passes:
  "rerankByKeywords basic_builtins [] [example_rounding]
     = [keyword_entry basic_builtins [] (0, example_rounding)]"
  "rerankBySemantic basic_builtins [] [example_rounding]
     = [semantic_entry basic_builtins [] (0, example_rounding)]"
  unfolding rerankByKeywords_def rerankBySemantic_def extractKeywords_empty Let_def
  by (simp_all add: enumerate_eq_zip sort_cmp_def)

lemma example_rounding_values:
  "parseFloat_toFixed4 (fadd (fmul (double (2501 / 5000)) (7 / 10)) (fmul 0 (3 / 10)))
     = double (3501 / 10000)"
  "parseFloat_toFixed4 (min (fadd (fadd (fadd (fadd (double (2501 / 5000)) 0) 0) 0) 0) 1)
     = double (2501 / 5000)"
  "parseFloat_toFixed4 (fadd (fmul (double (3501 / 10000)) (1 / 2))
                             (fmul (double (2501 / 5000)) (1 / 2))) = double (1063 / 2500)"
  "double (2501 / 5000) \<noteq> 0"
  "double (1063 / 2500)
     \<noteq> fadd (fmul (double (3501 / 10000)) (1 / 2)) (fmul (double (2501 / 5000)) (1 / 2))"
  "double (1063 / 2500) \<noteq> 1 / 2 * double (3501 / 10000) + 1 / 2 * double (2501 / 5000)"
  by (simp_all add: parseFloat_toFixed4_def binary64)

lemma example_rounding_scores:
  "rerank_score (keyword_entry basic_builtins [] (0, example_rounding))
     = double (3501 / 10000)"
  "rerank_score (semantic_entry basic_builtins [] (0, example_rounding))
     = double (2501 / 5000)"
proof -
  have p: "\<not> hasSpecificData (text' example_rounding)" "length (text' example_rounding) < 200"
    by (simp_all add: example_rounding_def example_no_data)
  show "rerank_score (keyword_entry basic_builtins [] (0, example_rounding))
          = double (3501 / 10000)"
    by (simp add: keyword_entry_no_keywords example_rounding_def example_rounding_values)
  show "rerank_score (semantic_entry basic_builtins [] (0, example_rounding))
          = double (2501 / 5000)"
    unfolding semantic_entry_plain [OF p]
    by (simp add: example_rounding_def example_rounding_values)
qed

text \<open>
  C4, as the claim states it: the hybrid \<open>rerank_score\<close> of a candidate equals
  \<open>0.5 * keyword score + 0.5 * semantic score\<close>.  For one candidate of score 0.5002 and
  the empty query the keyword pass gives 0.3501 and the semantic pass 0.5002; the hybrid
  pass returns 0.4252, which is neither their average in double arithmetic
  (0.42515000000000003) nor their exact average.
\<close>

theorem rerankHybrid_formula_counterexample:
  "map rerank_score (rerankByKeywords basic_builtins [] [example_rounding])
     = [double (3501 / 10000)]
   \<and> map rerank_score (rerankBySemantic basic_builtins [] [example_rounding])
     = [double (2501 / 5000)]
   \<and> map rerank_score (rerankHybrid basic_builtins [] [example_rounding])
     = [double (1063 / 2500)]
   \<and> double (1063 / 2500)
       \<noteq> fadd (fmul (double (3501 / 10000)) 0.5) (fmul (double (2501 / 5000)) 0.5)
   \<and> double (1063 / 2500) \<noteq> 0.5 * double (3501 / 10000) + 0.5 * double (2501 / 5000)"
proof -
  have k: "keyword_entry basic_builtins [] (0, example_rounding) =
     \<lparr>id' = [99], text' = str ''alpha'', source = str ''d'', score = double (2501 / 5000),
      metadata = None, rerank_score = double (3501 / 10000),
      rerank_method = str ''keyword-boost'', original_rank = 1, boost_reason = None\<rparr>"
    by (simp add: keyword_entry_no_keywords example_rounding_def example_rounding_values
          str_def)
  have i: "id' example_rounding = [99]"
    by (simp add: example_rounding_def str_def)
  have h: "rerank_score (hybrid_entry [([99], double (2501 / 5000))]
             (keyword_entry basic_builtins [] (0, example_rounding))) = double (1063 / 2500)"
    unfolding k by (simp add: hybrid_entry_def map_get_def example_rounding_values)
  have "map rerank_score (rerankHybrid basic_builtins [] [example_rounding])
          = [double (1063 / 2500)]"
    unfolding rerankHybrid_def example_rounding_passes Let_def
    by (simp add: example_rounding_scores i sort_cmp_def h)
  then show ?thesis
    using example_rounding_values(5,6)
    by (simp add: example_rounding_passes example_rounding_scores)
qed

text \<open>
  C4, amended.  The hybrid pass never fails and returns one result for every candidate,
  with the candidate's id, score and position as original rank.  Its \<open>rerank_score\<close> is
  the average \<open>0.5 * keyword score + 0.5 * semantic score\<close>, computed in double arithmetic
  and rounded to four decimals by \<open>toFixed(4)\<close>, of the candidate's result of the keyword
  pass and of the result of the semantic pass stored under the candidate's id, whenever
  that semantic score is not zero; both passes cover every candidate, and when the ids of
  the candidates are distinct the semantic result is that of the same candidate.
\<close>

theorem rerankHybrid_formula:
  "length (rerankHybrid rt query results) = length results
   \<and> (\<forall>i < length results.
        \<exists>r \<in> set (rerankHybrid rt query results).
        \<exists>k \<in> set (rerankByKeywords rt query results).
        \<exists>s \<in> set (rerankBySemantic rt query results).
          original_rank r = i + 1 \<and> original_rank k = i + 1
          \<and> id' r = id' (results ! i) \<and> id' k = id' (results ! i)
          \<and> id' s = id' (results ! i) \<and> score r = score (results ! i)
          \<and> (rerank_score s \<noteq> 0 \<longrightarrow>
               rerank_score r
                 = parseFloat_toFixed4
                     (fadd (fmul (rerank_score k) 0.5) (fmul (rerank_score s) 0.5)))
          \<and> (distinct (map id' results) \<longrightarrow> original_rank s = i + 1))"
proof -
  let ?m = "map (\<lambda>r. (id' r, rerank_score r)) (rerankBySemantic rt query results)"
  have len: "length (rerankHybrid rt query results) = length results"
    by (simp add: rerankHybrid_def rerankByKeywords_def Let_def length_sort_cmp)
  have each: "\<exists>r \<in> set (rerankHybrid rt query results).
        \<exists>k \<in> set (rerankByKeywords rt query results).
        \<exists>s \<in> set (rerankBySemantic rt query results).
          original_rank r = i + 1 \<and> original_rank k = i + 1
          \<and> id' r = id' (results ! i) \<and> id' k = id' (results ! i)
          \<and> id' s = id' (results ! i) \<and> score r = score (results ! i)
          \<and> (rerank_score s \<noteq> 0 \<longrightarrow>
               rerank_score r
                 = parseFloat_toFixed4
                     (fadd (fmul (rerank_score k) 0.5) (fmul (rerank_score s) 0.5)))
          \<and> (distinct (map id' results) \<longrightarrow> original_rank s = i + 1)"
    if i: "i < length results" for i
  proof -
    let ?k = "keyword_entry rt (extractKeywords rt query) (i, results ! i)"
    have "(i, results ! i) \<in> set (enumerate 0 results)"
      using i by (simp add: in_set_enumerate_eq)
    then have k: "?k \<in> set (rerankByKeywords rt query results)"
      by (simp add: rerankByKeywords_def Let_def set_sort_cmp)
    then have r: "hybrid_entry ?m ?k \<in> set (rerankHybrid rt query results)"
      by (simp add: rerankHybrid_def Let_def set_sort_cmp)
    obtain s where s: "s \<in> set (rerankBySemantic rt query results)" "id' s = id' ?k"
      "rerank_score (hybrid_entry ?m ?k)
         = parseFloat_toFixed4
             (fadd (fmul (rerank_score ?k) 0.5)
                   (fmul (if rerank_score s = 0 then score ?k else rerank_score s) 0.5))"
      using hybrid_entry_score [OF k] by blast
    have rank: "distinct (map id' results) \<longrightarrow> original_rank s = i + 1"
      using same_id_same_rank [OF _ k s(1) s(2)] by simp
    have formula: "rerank_score s \<noteq> 0 \<longrightarrow>
               rerank_score (hybrid_entry ?m ?k)
                 = parseFloat_toFixed4
                     (fadd (fmul (rerank_score ?k) 0.5) (fmul (rerank_score s) 0.5))"
      using s(3) by simp
    show ?thesis
      using s(2) rank formula
      by (intro bexI [OF _ r] bexI [OF _ k] bexI [OF _ s(1)]) simp
  qed
  show ?thesis using len each by blast
qed

theorem rerankHybrid_formula_witness:
  "distinct (map id' [example_first, example_second])
   \<and> (\<exists>r \<in> set (rerankHybrid basic_builtins [] [example_first, example_second]).
       \<exists>k \<in> set (rerankByKeywords basic_builtins [] [example_first, example_second]).
       \<exists>s \<in> set (rerankBySemantic basic_builtins [] [example_first, example_second]).
         original_rank r = 2 \<and> original_rank k = 2 \<and> original_rank s = 2
         \<and> rerank_score s \<noteq> 0
         \<and> rerank_score r
             = parseFloat_toFixed4 (fadd (fmul (rerank_score k) 0.5) (fmul (rerank_score s) 0.5))
         \<and> rerank_score r = double (51 / 100))"
proof -
  have d: "distinct (map id' [example_first, example_second])"
    by (simp add: example_first_def example_second_def str_def)
  have nz: "\<forall>s \<in> set (rerankBySemantic basic_builtins [] [example_first, example_second]).
              rerank_score s \<noteq> 0"
    by (simp add: example_semantic example_semantic_scores example_semantic_nonzero)
  have all: "\<forall>r \<in> set (rerankHybrid basic_builtins [] [example_first, example_second]).
               rerank_score r = double (51 / 100)"
    by (simp add: example_hybrid example_hybrid_first example_hybrid_second)
  have second: "(1 :: nat) < length [example_first, example_second]"
    by simp
  obtain r k s where rks:
    "r \<in> set (rerankHybrid basic_builtins [] [example_first, example_second])"
    "k \<in> set (rerankByKeywords basic_builtins [] [example_first, example_second])"
    "s \<in> set (rerankBySemantic basic_builtins [] [example_first, example_second])"
    "original_rank r = 1 + 1" "original_rank k = 1 + 1"
    "rerank_score s \<noteq> 0 \<longrightarrow>
       rerank_score r
         = parseFloat_toFixed4 (fadd (fmul (rerank_score k) 0.5) (fmul (rerank_score s) 0.5))"
    "distinct (map id' [example_first, example_second]) \<longrightarrow> original_rank s = 1 + 1"
    using rerankHybrid_formula [of basic_builtins "[]" "[example_first, example_second]",
        THEN conjunct2, rule_format, OF second]
    by blast
  have "original_rank r = 2 \<and> original_rank k = 2 \<and> original_rank s = 2
         \<and> rerank_score s \<noteq> 0
         \<and> rerank_score r
             = parseFloat_toFixed4 (fadd (fmul (rerank_score k) 0.5) (fmul (rerank_score s) 0.5))
         \<and> rerank_score r = double (51 / 100)"
    using rks d nz all by auto
  then show ?thesis using d rks(1,2,3) by blast
qed

section \<open>The context assembler\<close>

lemma budget_size_simps [simp]:
  "budget_size [] = 0"
  "budget_size (c # cs) = length (chunkText c) + budget_size cs"
  by (simp_all add: budget_size_def)

lemma select_loop_prefix:
  "\<exists>n \<le> length rs.
     select_loop rs m cur sel = sel @ take n rs
     \<and> (n > 0 \<longrightarrow> int (cur + budget_size (take n rs)) \<le> m)
     \<and> (n < length rs \<longrightarrow> int (cur + budget_size (take n rs) + length (chunkText (rs ! n))) > m)"
proof (induction rs arbitrary: cur sel)
  case Nil
  then show ?case by simp
next
  case (Cons r rs)
  show ?case
  proof (cases "int (cur + length (chunkText r)) \<le> m")
    case False
    then show ?thesis by (intro exI [of _ 0]) simp
  next
    case True
    obtain n where n: "n \<le> length rs"
      "select_loop rs m (cur + length (chunkText r)) (sel @ [r]) = (sel @ [r]) @ take n rs"
      "n > 0 \<longrightarrow> int (cur + length (chunkText r) + budget_size (take n rs)) \<le> m"
      "n < length rs \<longrightarrow>
         int (cur + length (chunkText r) + budget_size (take n rs) + length (chunkText (rs ! n))) > m"
      using Cons.IH [of "cur + length (chunkText r)" "sel @ [r]"] by blast
    show ?thesis
      using True n by (intro exI [of _ "Suc n"]) (auto simp: add.assoc)
  qed
qed

lemma budget_size_take_Suc:
  "n < length rs \<Longrightarrow> budget_size (take n rs) + length (chunkText (rs ! n)) \<le> budget_size rs"
proof (induction rs arbitrary: n)
  case Nil
  then show ?case by simp
next
  case (Cons r rs)
  then show ?case by (cases n) auto
qed

text \<open>The loop of \<open>prepareContextWithLimit\<close> accepts a prefix of the results, each whole,
  whose blocks are together within the budget; it stops at the first result whose block
  would exceed the budget, and accepts every result when all blocks fit.  The context is
  formatted from the accepted results.\<close>

lemma prepareContextWithLimit_selection:
  "\<exists>selected.
     prepareContextWithLimit rt results maxChars = formatContextForLLM rt selected
     \<and> prefix selected results
     \<and> (selected \<noteq> [] \<longrightarrow> int (budget_size selected) \<le> maxChars)
     \<and> (selected \<noteq> results \<longrightarrow>
          int (budget_size selected + length (chunkText (results ! length selected))) > maxChars)
     \<and> (int (budget_size results) \<le> maxChars \<longrightarrow> selected = results)
     \<and> (selected = [] \<longrightarrow>
          prepareContextWithLimit rt results maxChars = Inr no_information_message)"
proof -
  obtain n where n: "n \<le> length results"
    "select_loop results maxChars 0 [] = take n results"
    "n > 0 \<longrightarrow> int (budget_size (take n results)) \<le> maxChars"
    "n < length results \<longrightarrow>
       int (budget_size (take n results) + length (chunkText (results ! n))) > maxChars"
    using select_loop_prefix [of results maxChars 0 "[]"] by auto
  let ?sel = "take n results"
  have len: "length ?sel = n" using n(1) by simp
  have p1: "prepareContextWithLimit rt results maxChars = formatContextForLLM rt ?sel"
    by (simp add: prepareContextWithLimit_def n(2))
  have p2: "prefix ?sel results"
    by (rule take_is_prefix)
  have p3: "?sel \<noteq> [] \<longrightarrow> int (budget_size ?sel) \<le> maxChars"
    using n(3) by auto
  have ne: "?sel \<noteq> results \<longrightarrow> n < length results"
    using n(1) by (cases "n = length results") auto
  have p4: "?sel \<noteq> results \<longrightarrow>
      int (budget_size ?sel + length (chunkText (results ! length ?sel))) > maxChars"
    using ne n(4) len by simp
  have p5: "int (budget_size results) \<le> maxChars \<longrightarrow> ?sel = results"
  proof (intro impI, rule ccontr)
    assume b: "int (budget_size results) \<le> maxChars" and "?sel \<noteq> results"
    then have lt: "n < length results" using ne by simp
    then have "int (budget_size ?sel + length (chunkText (results ! n))) > maxChars"
      using n(4) by simp
    moreover have "budget_size ?sel + length (chunkText (results ! n)) \<le> budget_size results"
      by (rule budget_size_take_Suc [OF lt])
    ultimately show False using b by linarith
  qed
  have p6: "?sel = [] \<longrightarrow>
      prepareContextWithLimit rt results maxChars = Inr no_information_message"
    using p1 by (simp add: formatContextForLLM_def)
  show ?thesis using p1 p2 p3 p4 p5 p6 by blast
qed



subsection \<open>The program on the second example candidate\<close>

lemma nat_to_string_digits:
  "nat_to_string 0 = [48]" "nat_to_string 1 = [49]" "nat_to_string (Suc 0) = [49]"
  "nat_to_string 2 = [50]" "nat_to_string 60 = [54, 48]"
  by (simp_all add: nat_to_string.simps)

lemma example_percent:
  "toFixed1 basic_builtins (fmul (double (3 / 5)) 100) = [54, 48, 46, 48]"
proof -
  have v: "fmul (double (3 / 5)) 100 = 60"
    by (simp add: binary64)
  show ?thesis
    unfolding v by (simp add: toFixed1_def Let_def nat_to_string_digits str_def)
qed

lemma example_chunkText:
  "chunkText (Plain example_second) = [10, 91, 100, 93, 10, 98, 101, 116, 97, 10]"
  by (simp add: chunkText_def example_second_def str_def)

lemma example_selected: "select_loop [Plain example_second] 10 0 [] = [Plain example_second]"
  by (simp add: example_chunkText)

lemma example_group:
  "group_by_source basic_builtins [] [Plain example_second]
     = Inr [([100], [Plain example_second])]"
  by (simp add: group_step_def basic_builtins_def object_prototype_names_def
        example_second_def str_def)

lemma example_entries:
  "object_entries [([100], [Plain example_second])] = [([100], [Plain example_second])]"
  by (simp add: object_entries_def is_array_index_def)

lemma example_format_chunk:
  "format_chunk basic_builtins (0, Plain example_second) =
     [10, 91, 1060, 1088, 1072, 1075, 1084, 1077, 1085, 1090, 32, 49, 44, 32, 1088, 1077, 1083, 1077, 1074, 1072, 1085, 1090, 1085, 1086, 1089, 1090, 1100, 58, 32, 54, 48, 46, 48, 37, 93, 10, 98, 101, 116, 97, 10]"
  by (simp add: format_chunk_def Let_def nat_to_string_digits example_second_def
        example_percent fragment_header_def relevance_label_def str_def)

lemma example_format:
  "formatContextForLLM basic_builtins [Plain example_second] = Inr example_context"
  unfolding formatContextForLLM_def example_group
  by (simp add: example_entries enumerate_eq_zip format_document_def Let_def
        example_format_chunk nat_to_string_digits document_header_def str_def trim_def
        isWhiteSpace_def whiteSpace_units_def example_context_def)

text \<open>
  C1.  The string returned by \<open>prepareContextWithLimit\<close> has at most \<open>maxChars\<close>
  characters for every result list and every budget, as the function's documentation
  promises (\<open>maxChars\<close> is the maximum of characters, the context is returned cut to it).
  The program does not keep the bound.  For the second example candidate alone and the
  budget 10, the block charged to the budget has 10 units and the candidate is accepted,
  but the context returned has 62 units: the loop charges a block that is never emitted,
  and leaves out the headers of document and fragment that are.
\<close>

theorem prepareContextWithLimit_exceeds_budget:
  "budget_size [Plain example_second] = 10
   \<and> prepareContextWithLimit basic_builtins [Plain example_second] 10 = Inr example_context
   \<and> length example_context = 62"
proof -
  have b: "budget_size [Plain example_second] = 10"
    by (simp add: example_chunkText)
  have n: "prepareContextWithLimit basic_builtins [Plain example_second] 10
           = Inr example_context"
    by (simp only: prepareContextWithLimit_def example_selected example_format)
  have l: "length example_context = 62"
    by (simp add: example_context_def)
  show ?thesis using b n l by blast
qed

end
